theory Spec2Isabelle
  imports Complex_Main "HOL-Library.Sublist"
begin

section \<open>Python text primitives used by devlib/utils/android.py\<close>

text \<open>
  Captured text is a Python \<open>str\<close>. It is modelled as a \<open>string\<close> whose characters are
  the code points below 256, and the character classes of Python are given on that range.
\<close>

abbreviation LF :: char where "LF \<equiv> CHR 0x0A"
abbreviation CR :: char where "CR \<equiv> CHR 0x0D"

text \<open>\<open>sub in s\<close> on strings.\<close>

fun contains :: "string \<Rightarrow> string \<Rightarrow> bool" where
  "contains sub [] = (sub = [])"
| "contains sub (c # cs) = (prefix sub (c # cs) \<or> contains sub cs)"

text \<open>\<open>s.replace('\r\n', '\n')\<close>: non-overlapping occurrences, left to right.\<close>

fun replace_crlf :: "string \<Rightarrow> string" where
  "replace_crlf [] = []"
| "replace_crlf [c] = [c]"
| "replace_crlf (c # d # cs) =
     (if c = CR \<and> d = LF then LF # replace_crlf cs else c # replace_crlf (d # cs))"

text \<open>\<open>s.replace('\r', '\n')\<close>.\<close>

definition replace_cr :: "string \<Rightarrow> string" where
  "replace_cr s = map (\<lambda>c. if c = CR then LF else c) s"

text \<open>
  \<open>s.rsplit('\n', k)\<close>: at most \<open>k\<close> splits, taken from the right; the pieces are
  returned in their order in \<open>s\<close>.
\<close>

fun rsplit :: "nat \<Rightarrow> string \<Rightarrow> string list" where
  "rsplit 0 s = [s]"
| "rsplit (Suc k) s =
     (if LF \<in> set s
      then rsplit k (rev (tl (dropWhile (\<lambda>c. c \<noteq> LF) (rev s))))
             @ [rev (takeWhile (\<lambda>c. c \<noteq> LF) (rev s))]
      else [s])"

text \<open>\<open>str.isspace\<close> on one character (the whitespace \<open>strip()\<close> and \<open>split()\<close> remove).\<close>

definition py_isspace :: "char \<Rightarrow> bool" where
  "py_isspace c = ((of_char c :: nat) \<in> set [9, 10, 11, 12, 13, 28, 29, 30, 31, 32, 133, 160])"

definition py_strip :: "string \<Rightarrow> string" where
  "py_strip s = rev (dropWhile py_isspace (rev (dropWhile py_isspace s)))"

text \<open>\<open>s.split()\<close>: maximal runs of non-whitespace characters.\<close>

fun split_ws :: "string \<Rightarrow> string \<Rightarrow> string list" where
  "split_ws cur [] = (if cur = [] then [] else [cur])"
| "split_ws cur (c # cs) =
     (if py_isspace c then (if cur = [] then split_ws [] cs else cur # split_ws [] cs)
      else split_ws (cur @ [c]) cs)"

definition py_split :: "string \<Rightarrow> string list" where
  "py_split s = split_ws [] s"

text \<open>
  \<open>str.isdigit\<close>: true of a non-empty string of characters with the Unicode property
  Digit; below 256 these are \<open>0\<close>..\<open>9\<close> and the superscripts two, three and one.
\<close>

definition ascii_digit :: "char \<Rightarrow> bool" where
  "ascii_digit c = (48 \<le> (of_char c :: nat) \<and> (of_char c :: nat) \<le> 57)"

definition digit_char :: "char \<Rightarrow> bool" where
  "digit_char c = (ascii_digit c \<or> (of_char c :: nat) \<in> set [178, 179, 185])"

definition py_isdigit :: "string \<Rightarrow> bool" where
  "py_isdigit s = (s \<noteq> [] \<and> list_all digit_char s)"

text \<open>
  \<open>int(s)\<close> in base 10: surrounding whitespace is dropped, one sign is allowed, the
  digits are decimal digits (below 256: \<open>0\<close>..\<open>9\<close> only) and may be grouped by single
  underscores. Anything else raises ValueError (here \<open>None\<close>), and so does a literal of
  more than \<open>int_max_str_digits\<close> digits (the default limit of the interpreter).
\<close>

definition int_max_str_digits :: nat where
  "int_max_str_digits = 4300"

definition dec_value :: "string \<Rightarrow> nat" where
  "dec_value ds = foldl (\<lambda>acc c. 10 * acc + ((of_char c :: nat) - 48)) 0 ds"

fun digit_groups :: "bool \<Rightarrow> string \<Rightarrow> bool" where
  "digit_groups after_digit [] = after_digit"
| "digit_groups after_digit (c # cs) =
     (if ascii_digit c then digit_groups True cs
      else if c = CHR ''_'' then after_digit \<and> digit_groups False cs
      else False)"

definition int_unsigned :: "string \<Rightarrow> nat option" where
  "int_unsigned body =
     (let ds = filter (\<lambda>c. c \<noteq> CHR ''_'') body
      in if digit_groups False body \<and> length ds \<le> int_max_str_digits
         then Some (dec_value ds) else None)"

definition py_int :: "string \<Rightarrow> int option" where
  "py_int s =
     (case py_strip s of
        [] \<Rightarrow> None
      | c # cs \<Rightarrow>
          if c = CHR ''-'' then map_option (\<lambda>n. - int n) (int_unsigned cs)
          else if c = CHR ''+'' then map_option int (int_unsigned cs)
          else map_option int (int_unsigned (c # cs)))"

text \<open>\<open>str(n)\<close> for a natural number, and for an integer.\<close>

fun str_nat :: "nat \<Rightarrow> string" where
  "str_nat n =
     (if n < 10 then [char_of (48 + n)]
      else str_nat (n div 10) @ [char_of (48 + n mod 10)])"

declare str_nat.simps [simp del]

definition str_int :: "int \<Rightarrow> string" where
  "str_int i = (if i < 0 then CHR ''-'' # str_nat (nat (- i)) else str_nat (nat i))"

text \<open>\<open>'\n'.join(x for x in (output, error) if x)\<close>.\<close>

definition join_nonempty :: "string \<Rightarrow> string \<Rightarrow> string" where
  "join_nonempty output err =
     (if output = [] then err
      else if err = [] then output
      else output @ [LF] @ err)"

text \<open>
  \<open>AM_START_ERROR.findall(output)\<close> for the pattern \<open>Error: Activity.*\<close>: every match
  starts at an occurrence of the literal and runs to the end of its line; the search goes
  on after the match.
\<close>

function am_start_error_findall :: "string \<Rightarrow> string list" where
  "am_start_error_findall [] = []"
| "am_start_error_findall (c # cs) =
     (if prefix ''Error: Activity'' (c # cs)
      then (c # takeWhile (\<lambda>x. x \<noteq> LF) cs)
             # am_start_error_findall (dropWhile (\<lambda>x. x \<noteq> LF) cs)
      else am_start_error_findall cs)"
  by pat_completeness auto
termination
  by (relation "measure length") (auto simp: length_dropWhile_le less_Suc_eq_le)

text \<open>
  \<open>shlex.quote\<close>: the empty string becomes two quotes, a string of safe characters is
  returned as it is, anything else is put in single quotes, each single quote inside
  written as \<open>'"'"'\<close>.
\<close>

definition shlex_safe :: "char \<Rightarrow> bool" where
  "shlex_safe c =
     (let n = (of_char c :: nat)
      in (48 \<le> n \<and> n \<le> 57) \<or> (65 \<le> n \<and> n \<le> 90) \<or> (97 \<le> n \<and> n \<le> 122)
         \<or> c \<in> set ''_@%+=:,./-'')"

definition quote :: "string \<Rightarrow> string" where
  "quote s =
     (if s = [] then [CHR 0x27, CHR 0x27]
      else if list_all shlex_safe s then s
      else [CHR 0x27]
           @ concat (map (\<lambda>c. if c = CHR 0x27
                               then [CHR 0x27, CHR 0x22, CHR 0x27, CHR 0x22, CHR 0x27]
                               else [c]) s)
           @ [CHR 0x27])"

text \<open>
  \<open>template.format(arg)\<close> for a template with one \<open>{}\<close> field, as the two values of
  \<open>su_cmd\<close> are: the field is replaced by the argument.
\<close>

fun format1 :: "string \<Rightarrow> string \<Rightarrow> string" where
  "format1 [] arg = []"
| "format1 [c] arg = [c]"
| "format1 (c # d # cs) arg =
     (if c = CHR ''{'' \<and> d = CHR ''}'' then arg @ cs else c # format1 (d # cs) arg)"

section \<open>Exceptions\<close>

text \<open>
  Every exception the modelled code raises or lets through is a value. The message of
  an exception is either a text or \<open>str(e)\<close> of another exception, kept symbolic.
\<close>

datatype error =
    CalledProcessError int "string list" string string
  | TargetStableCalledProcessError int string string string
  | TargetTransientCalledProcessError int string string string
  | TargetStableError message
  | TargetTransientError message
  | AdbRootError message
  | HostError message
  | TimeoutError
  | ValueError
  | TypeError
  | IndexError
and message = Text string | StrOf error

text \<open>
  Modelled from the spec: the classes of \<open>devlib.exception\<close> are imported by the source
  but declared outside it. The process-exit errors are \<open>subprocess.CalledProcessError\<close>s
  that are also stable or transient target errors, and the root-escalation error is a
  stable error.
\<close>

fun isinstance_CalledProcessError :: "error \<Rightarrow> bool" where
  "isinstance_CalledProcessError (CalledProcessError rc cmd out err) = True"
| "isinstance_CalledProcessError (TargetStableCalledProcessError rc cmd out err) = True"
| "isinstance_CalledProcessError (TargetTransientCalledProcessError rc cmd out err) = True"
| "isinstance_CalledProcessError e = False"

fun isinstance_TargetStableError :: "error \<Rightarrow> bool" where
  "isinstance_TargetStableError (TargetStableError m) = True"
| "isinstance_TargetStableError (TargetStableCalledProcessError rc cmd out err) = True"
| "isinstance_TargetStableError (AdbRootError m) = True"
| "isinstance_TargetStableError e = False"

fun isinstance_TargetTransientError :: "error \<Rightarrow> bool" where
  "isinstance_TargetTransientError (TargetTransientError m) = True"
| "isinstance_TargetTransientError (TargetTransientCalledProcessError rc cmd out err) = True"
| "isinstance_TargetTransientError e = False"

fun isinstance_AdbRootError :: "error \<Rightarrow> bool" where
  "isinstance_AdbRootError (AdbRootError m) = True"
| "isinstance_AdbRootError e = False"

text \<open>The fields of a \<open>subprocess.CalledProcessError\<close>, whatever its subclass.\<close>

fun returncode :: "error \<Rightarrow> int" where
  "returncode (CalledProcessError rc cmd out err) = rc"
| "returncode (TargetStableCalledProcessError rc cmd out err) = rc"
| "returncode (TargetTransientCalledProcessError rc cmd out err) = rc"
| "returncode e = 0"

fun output_of :: "error \<Rightarrow> string" where
  "output_of (CalledProcessError rc cmd out err) = out"
| "output_of (TargetStableCalledProcessError rc cmd out err) = out"
| "output_of (TargetTransientCalledProcessError rc cmd out err) = out"
| "output_of e = []"

fun stderr_of :: "error \<Rightarrow> string" where
  "stderr_of (CalledProcessError rc cmd out err) = err"
| "stderr_of (TargetStableCalledProcessError rc cmd out err) = err"
| "stderr_of (TargetTransientCalledProcessError rc cmd out err) = err"
| "stderr_of e = []"

section \<open>The command channel: \<open>adb_shell\<close>\<close>

text \<open>
  The transport is \<open>check_output\<close> of \<open>devlib.utils.misc\<close>: given the argument vector it
  returns the captured output and error streams, or raises. It is a parameter of the
  model; its time-out is part of its answer (\<open>TimeoutError\<close>).
\<close>

type_synonym transport = "string list \<Rightarrow> error + string \<times> string"

text \<open>\<open>_get_adb_parts(command, device, adb_server, adb_port, quote_adb=False)\<close>;
  \<open>adb\<close> is the path \<open>_ANDROID_ENV.get_env('adb')\<close>.\<close>

definition get_adb_parts ::
  "string \<Rightarrow> string list \<Rightarrow> string option \<Rightarrow> string option \<Rightarrow> int option \<Rightarrow> string list" where
  "get_adb_parts adb command device adb_server adb_port =
     [adb]
     @ (case adb_server of None \<Rightarrow> [] | Some h \<Rightarrow> [''-H'', h])
     @ (case adb_port of None \<Rightarrow> [] | Some p \<Rightarrow> [''-P'', str_int p])
     @ (case device of None \<Rightarrow> [] | Some d \<Rightarrow> [''-s'', d])
     @ command"

text \<open>Line 605: \<open>r'({}); echo "\n$?"'.format(command)\<close>.\<close>

definition wrap_exit_code :: "string \<Rightarrow> string" where
  "wrap_exit_code command =
     ''('' @ command @ ''); echo '' @ [CHR 0x22, CHR 0x5C] @ ''n$?'' @ [CHR 0x22]"

text \<open>Lines 619 and 621: \<open>.replace('\r\n', '\n').replace('\r', '\n')\<close>.\<close>

definition normalise_newlines :: "string \<Rightarrow> string" where
  "normalise_newlines raw = replace_cr (replace_crlf raw)"

text \<open>
  Lines 617 to 625: the output and the exit-code text recovered from the raw capture.
  Unpacking the wrong number of pieces raises ValueError; the first one is caught, the
  one raised inside the handler is not.
\<close>

definition parse_raw_output :: "string \<Rightarrow> error + string \<times> string" where
  "parse_raw_output raw_output =
     (if raw_output \<noteq> [] then
        (case rsplit 2 (normalise_newlines raw_output) of
           [output, exit_code, rest] \<Rightarrow> Inr (output, exit_code)
         | _ \<Rightarrow>
           (case rsplit 1 (normalise_newlines raw_output) of
              [exit_code, rest] \<Rightarrow> Inr ([], exit_code)
            | _ \<Rightarrow> Inl ValueError))
      else Inr ([], ''969696''))"

definition could_not_start_activity :: "string \<Rightarrow> message" where
  "could_not_start_activity m =
     Text (''Could not start activity; got the following:'' @ [LF] @ m)"

definition returned_early :: "string \<Rightarrow> string \<Rightarrow> message" where
  "returned_early raw_output err =
     Text (''adb has returned early; did not get an exit code. Was kill-server invoked?''
           @ [LF] @ ''OUTPUT:'' @ [LF] @ ''-----'' @ [LF] @ raw_output @ [LF]
           @ ''-----'' @ [LF] @ ''STDERR:'' @ [LF] @ ''-----'' @ [LF] @ err @ [LF] @ ''-----'')"

text \<open>
  Lines 627 to 651, the body of \<open>if check_exit_code\<close>: \<open>None\<close> when nothing is raised.
  \<open>command\<close> is the pair \<open>('shell', wrapped)\<close> the name is bound to at that point.
\<close>

definition check_exit :: "string list \<Rightarrow> string \<Rightarrow> string \<Rightarrow> string \<Rightarrow> string \<Rightarrow> error option" where
  "check_exit command raw_output output exit_code err =
     (let exit_code' = py_strip exit_code;
          re_search = am_start_error_findall output
      in if py_isdigit exit_code' then
           (case py_int exit_code' of
              None \<Rightarrow> Some ValueError
            | Some n \<Rightarrow>
                if n \<noteq> 0 then Some (CalledProcessError n command output err)
                else (case re_search of
                        [] \<Rightarrow> None
                      | m # ms \<Rightarrow> Some (TargetStableError (could_not_start_activity m))))
         else
           (case re_search of
              m # ms \<Rightarrow> Some (TargetStableError (could_not_start_activity m))
            | [] \<Rightarrow> Some (TargetTransientError (returned_early raw_output err))))"

text \<open>
  Lines 605 to 607: the command wrapped for its exit code, put through \<open>su_cmd\<close> when
  root is asked for, and paired with \<open>shell\<close>.
\<close>

definition shell_command :: "string \<Rightarrow> bool \<Rightarrow> string \<Rightarrow> string list" where
  "shell_command command as_root su_cmd =
     [''shell'',
      if as_root then format1 su_cmd (quote (wrap_exit_code command))
      else wrap_exit_code command]"

definition adb_shell ::
  "transport \<Rightarrow> string \<Rightarrow> string option \<Rightarrow> string \<Rightarrow> bool \<Rightarrow> bool \<Rightarrow> string option
     \<Rightarrow> int option \<Rightarrow> string \<Rightarrow> error + string" where
  "adb_shell check_output adb device command check_exit_code as_root adb_server adb_port su_cmd =
     (let command' = shell_command command as_root su_cmd;
          parts = get_adb_parts adb command' device adb_server adb_port
      in case check_output parts of
           Inl e \<Rightarrow>
             if isinstance_CalledProcessError e then Inl (TargetStableError (StrOf e))
             else Inl e
         | Inr (raw_output, err) \<Rightarrow>
             (case parse_raw_output raw_output of
                Inl e \<Rightarrow> Inl e
              | Inr (output, exit_code) \<Rightarrow>
                  (case (if check_exit_code
                         then check_exit command' raw_output output exit_code err
                         else None) of
                     Some e \<Rightarrow> Inl e
                   | None \<Rightarrow> Inr (join_nonempty output err))))"

section \<open>Device discovery: \<open>adb_get_device\<close>\<close>

text \<open>
  \<open>s.splitlines()\<close>: the line boundaries below 256 are LF, CR, CR LF, VT, FF, the
  separators 0x1C to 0x1E and NEL (0x85). A final line break adds no empty line.
\<close>

definition linebreak :: "char \<Rightarrow> bool" where
  "linebreak c = ((of_char c :: nat) \<in> set [10, 11, 12, 13, 28, 29, 30, 133])"

fun splitlines_from :: "string \<Rightarrow> string \<Rightarrow> string list" where
  "splitlines_from cur [] = (if cur = [] then [] else [cur])"
| "splitlines_from cur [c] = (if linebreak c then [cur] else [cur @ [c]])"
| "splitlines_from cur (c # d # cs) =
     (if c = CR \<and> d = LF then cur # splitlines_from [] cs
      else if linebreak c then cur # splitlines_from [] (d # cs)
      else splitlines_from (cur @ [c]) (d # cs))"

definition splitlines :: "string \<Rightarrow> string list" where
  "splitlines s = splitlines_from [] s"

text \<open>\<open>line.split('\t')[0]\<close>: the text before the first tab.\<close>

definition first_tab_field :: "string \<Rightarrow> string" where
  "first_tab_field line = takeWhile (\<lambda>c. c \<noteq> CHR 0x09) line"

definition devices_found_message :: "nat \<Rightarrow> message" where
  "devices_found_message output_length =
     Text (str_int (int output_length - 2)
           @ '' Android devices found; either explicitly specify ''
           @ ''the device you want, or make sure only one is connected.'')"

text \<open>
  The loop of lines 526 to 541. Each poll is what the environment shows at one
  iteration: the outcome of \<open>adb devices\<close> and the clock reading
  \<open>time.time() - start\<close> taken if the listing has fewer than three lines. The result
  is \<open>None\<close> when the polls run out while the loop is still waiting. Comparing a
  \<open>None\<close> time-out with a number raises TypeError.
\<close>

fun adb_get_device_loop ::
  "real option \<Rightarrow> ((error + string) \<times> real) list \<Rightarrow> (error + string) option" where
  "adb_get_device_loop timeout [] = None"
| "adb_get_device_loop timeout ((listing, elapsed) # polls) =
     (case listing of
        Inl e \<Rightarrow> Some (Inl e)
      | Inr text \<Rightarrow>
          (let output = splitlines text;
               output_length = length output
           in if output_length = 3 then Some (Inr (first_tab_field (output ! 1)))
              else if output_length > 3
              then Some (Inl (HostError (devices_found_message output_length)))
              else (case timeout of
                      None \<Rightarrow> Some (Inl TypeError)
                    | Some t \<Rightarrow>
                        if t < elapsed
                        then Some (Inl (HostError (Text ''No device is connected and available'')))
                        else adb_get_device_loop timeout polls)))"

text \<open>\<open>adb_get_device\<close>: \<open>start_server\<close> is the outcome of the start-server command.\<close>

definition adb_get_device ::
  "real option \<Rightarrow> error + string \<Rightarrow> ((error + string) \<times> real) list
     \<Rightarrow> (error + string) option" where
  "adb_get_device timeout start_server polls =
     (case start_server of
        Inl e \<Rightarrow> Some (Inl e)
      | Inr started \<Rightarrow> adb_get_device_loop timeout polls)"

section \<open>Connections and the state they share\<close>

text \<open>
  The attributes of an \<open>AdbConnection\<close> that the modelled methods read or write. The
  time-out attribute is left out: time-outs are part of the environment's answers.
\<close>

record connection =
  device :: string
  adb_server :: "string option"
  adb_port :: "int option"
  adb_as_root :: bool
  restore_to_adb_root :: bool
  ls_command :: string
  su_cmd :: string

text \<open>A transport action issued on behalf of a connection, as recorded in the trace.\<close>

datatype event =
    AdbCommand "string option" string
  | AdbShell string string bool
  | AdbDisconnect string
  | AdbConnectCommand string
  | Ping string
  | Sleep real

text \<open>
  The state shared by all connections of the process: the class attributes
  \<open>active_connections\<close> (its counter table; the lock makes each block on it atomic) and
  \<open>_connected_as_root\<close> (absent and \<open>None\<close> are the same: root status unknown), and the
  trace of transport actions, oldest first.
\<close>

record adb_state =
  nr_active :: "string \<rightharpoonup> int"
  connected_as_root_tbl :: "string \<rightharpoonup> bool"
  trace :: "event list"

text \<open>Reading \<open>nr_active[k]\<close> of a \<open>defaultdict(int)\<close>: a missing key reads as 0.\<close>

definition dd_get :: "(string \<rightharpoonup> int) \<Rightarrow> string \<Rightarrow> int" where
  "dd_get m k = (case m k of None \<Rightarrow> 0 | Some v \<Rightarrow> v)"

text \<open>
  The environment of one operation: what each transport action answers. Actions that a
  loop repeats are indexed by the iteration.
\<close>

record env =
  adb_path :: string
  check_output_result :: transport
  adb_command_result :: "string option \<Rightarrow> string \<Rightarrow> error + string"
  disconnect_retval :: "string \<Rightarrow> int"
  connect_result :: "nat \<Rightarrow> error + string"
  ping_result :: "nat \<Rightarrow> bool"
  start_server_result :: "error + string"
  devices_polls :: "((error + string) \<times> real) list"

definition record_event :: "event \<Rightarrow> adb_state \<Rightarrow> adb_state" where
  "record_event ev st = st\<lparr>trace := trace st @ [ev]\<rparr>"

text \<open>\<open>adb_command(device, command, ...)\<close>: returns the captured output or raises.\<close>

definition adb_command ::
  "env \<Rightarrow> string option \<Rightarrow> string \<Rightarrow> adb_state \<Rightarrow> (error + string) \<times> adb_state" where
  "adb_command e dev command st =
     (adb_command_result e dev command, record_event (AdbCommand dev command) st)"

text \<open>
  \<open>get_adb_command(device, command, adb_server, adb_port)\<close>: the parts of
  \<open>_get_adb_parts\<close> with \<open>quote_adb=True\<close>, after the environment assignment
  \<open>LC_ALL=C\<close>, joined by single spaces.
\<close>

fun join_spaces :: "string list \<Rightarrow> string" where
  "join_spaces [] = []"
| "join_spaces [p] = p"
| "join_spaces (p # q # ps) = p @ '' '' @ join_spaces (q # ps)"

definition get_adb_command ::
  "string \<Rightarrow> string option \<Rightarrow> string \<Rightarrow> string option \<Rightarrow> int option \<Rightarrow> string" where
  "get_adb_command adb dev command srv port =
     join_spaces
       ([quote ''LC_ALL=C'', adb]
        @ (case srv of None \<Rightarrow> [] | Some h \<Rightarrow> [''-H'', quote h])
        @ (case port of None \<Rightarrow> [] | Some p \<Rightarrow> [''-P'', quote (str_int p)])
        @ (case dev of None \<Rightarrow> [] | Some d \<Rightarrow> [''-s'', quote d])
        @ [command])"

text \<open>
  The class \<open>AdbDevice\<close>, a name and a status, and \<open>adb_list_devices\<close>: every line
  of the output of \<open>adb devices\<close> that splits into exactly two fields is a device.
\<close>

datatype adb_device = AdbDevice string string

definition adb_list_devices ::
  "env \<Rightarrow> adb_state \<Rightarrow> (error + adb_device list) \<times> adb_state" where
  "adb_list_devices e st =
     (case adb_command e None ''devices'' st of
        (Inl x, st1) \<Rightarrow> (Inl x, st1)
      | (Inr output, st1) \<Rightarrow>
          (Inr (concat (map (\<lambda>line. case map py_strip (py_split line) of
                                      [n, s] \<Rightarrow> [AdbDevice n s]
                                    | _ \<Rightarrow> [])
                            (splitlines output))),
           st1))"

text \<open>
  \<open>device == d\<close> for a \<open>str\<close> and an \<open>AdbDevice\<close>. The class defines \<open>__cmp__\<close> only,
  which Python 3 never calls: \<open>str.__eq__\<close> does not know the class, the inherited
  \<open>object.__eq__\<close> compares identities, and a \<open>str\<close> is never the \<open>AdbDevice\<close> object,
  so the comparison is false whatever the name is. \<open>device in devices\<close> is true when
  the comparison is true of a member of the list.
\<close>

fun str_eq_AdbDevice :: "string \<Rightarrow> adb_device \<Rightarrow> bool" where
  "str_eq_AdbDevice s (AdbDevice n status) = False"

definition device_in :: "string \<Rightarrow> adb_device list \<Rightarrow> bool" where
  "device_in s devices = list_ex (str_eq_AdbDevice s) devices"

text \<open>
  \<open>adb_disconnect(device, adb_server, adb_port)\<close>: an empty device name returns at once.
  The devices are listed only for a name with a colon (\<open>and\<close> evaluates its right side
  only then), and the disconnect command is run only for a listed device; an exit status
  other than 0 raises the transient error.
\<close>

definition adb_disconnect ::
  "env \<Rightarrow> string \<Rightarrow> string option \<Rightarrow> int option \<Rightarrow> adb_state \<Rightarrow> error option \<times> adb_state" where
  "adb_disconnect e dev srv port st =
     (if dev = [] then (None, st)
      else if CHR '':'' \<in> set dev then
        (case adb_list_devices e st of
           (Inl x, st1) \<Rightarrow> (Some x, st1)
         | (Inr devices, st1) \<Rightarrow>
             if device_in dev devices then
               (let command = get_adb_command (adb_path e) None ''disconnect'' srv port
                                @ '' '' @ dev;
                    retval = disconnect_retval e dev
                in (if retval \<noteq> 0
                    then Some (TargetTransientError
                                 (Text ([CHR 0x22] @ command @ [CHR 0x22] @ '' returned ''
                                        @ str_int retval)))
                    else None,
                    record_event (AdbDisconnect dev) st1))
             else (None, st1))
      else (None, st))"

section \<open>\<open>AdbConnection.execute\<close>\<close>

text \<open>
  Lines 366 to 381, the \<open>try\<close> statement of \<open>execute\<close> with the root flag already
  settled: the call of \<open>adb_shell\<close> and the two handlers, in their order. What it returns
  or raises does not depend on the shared state.
\<close>

definition execute_result ::
  "env \<Rightarrow> connection \<Rightarrow> string \<Rightarrow> bool \<Rightarrow> bool \<Rightarrow> bool \<Rightarrow> error + string" where
  "execute_result e self command check_exit_code as_root will_succeed =
     (case adb_shell (check_output_result e) (adb_path e) (Some (device self)) command
             check_exit_code as_root (adb_server self) (adb_port self) (su_cmd self) of
        Inr out \<Rightarrow> Inr out
      | Inl x \<Rightarrow>
          if isinstance_CalledProcessError x then
            Inl ((if will_succeed then TargetTransientCalledProcessError
                  else TargetStableCalledProcessError)
                   (returncode x) command (output_of x) (stderr_of x))
          else if isinstance_TargetStableError x then
            (if will_succeed then Inl (TargetTransientError (StrOf x)) else Inl x)
          else Inl x)"

definition execute_try ::
  "env \<Rightarrow> connection \<Rightarrow> string \<Rightarrow> bool \<Rightarrow> bool \<Rightarrow> bool \<Rightarrow> adb_state
     \<Rightarrow> (error + string) \<times> adb_state" where
  "execute_try e self command check_exit_code as_root will_succeed st =
     (execute_result e self command check_exit_code as_root will_succeed,
      record_event (AdbShell (device self) command as_root) st)"

text \<open>
  The property \<open>connected_as_root\<close>: an unknown status is found by \<open>self.execute('id')\<close>,
  a call with the default arguments (exit code checked, not as root, no hint), and then
  cached for the device.
\<close>

definition connected_as_root ::
  "env \<Rightarrow> connection \<Rightarrow> adb_state \<Rightarrow> (error + bool) \<times> adb_state" where
  "connected_as_root e self st =
     (case connected_as_root_tbl st (device self) of
        Some b \<Rightarrow> (Inr b, st)
      | None \<Rightarrow>
          (case execute_try e self ''id'' True False False st of
             (Inl x, st') \<Rightarrow> (Inl x, st')
           | (Inr result, st') \<Rightarrow>
               (Inr (contains ''uid=0('' result),
                st'\<lparr>connected_as_root_tbl :=
                      (connected_as_root_tbl st')(device self \<mapsto> contains ''uid=0('' result)\<rparr>)))"

text \<open>
  \<open>execute\<close>: \<open>if as_root and self.connected_as_root: as_root = False\<close> stands before the
  \<open>try\<close>, so the property is read only when root is asked for, and an exception of its
  probe leaves \<open>execute\<close> as it is.
\<close>

definition execute ::
  "env \<Rightarrow> connection \<Rightarrow> string \<Rightarrow> bool \<Rightarrow> bool \<Rightarrow> bool \<Rightarrow> adb_state
     \<Rightarrow> (error + string) \<times> adb_state" where
  "execute e self command check_exit_code as_root will_succeed st =
     (if as_root then
        (case connected_as_root e self st of
           (Inl x, st') \<Rightarrow> (Inl x, st')
         | (Inr rooted, st') \<Rightarrow>
             execute_try e self command check_exit_code (\<not> rooted) will_succeed st')
      else execute_try e self command check_exit_code False will_succeed st)"

section \<open>Root toggle\<close>

text \<open>The local function \<open>is_rooted\<close> of \<open>_adb_root\<close>.\<close>

definition is_rooted :: "string \<Rightarrow> bool" where
  "is_rooted out = contains ''adbd is already running as root'' out"

text \<open>
  \<open>AdbConnection._adb_root\<close>. Reading the counter of the device inserts 0 for a missing
  key. The handler catches \<open>subprocess.CalledProcessError\<close> only; any other exception of
  \<open>adb_command\<close> passes through.
\<close>

definition priv_adb_root ::
  "env \<Rightarrow> connection \<Rightarrow> bool \<Rightarrow> adb_state \<Rightarrow> (error + bool) \<times> adb_state" where
  "priv_adb_root e self enable st =
     (let st0 = st\<lparr>nr_active :=
                     (nr_active st)(device self \<mapsto> dd_get (nr_active st) (device self))\<rparr>;
          can_root = (dd_get (nr_active st) (device self) \<le> 1)
      in if \<not> can_root
         then (Inl (AdbRootError
                 (Text ''Can only restart adb server if no other connection is active'')), st0)
         else
           (let cmd = (if enable then ''root'' else ''unroot'')
            in case adb_command e (Some (device self)) cmd st0 of
                 (Inl x, st1) \<Rightarrow>
                   if isinstance_CalledProcessError x then
                     (if \<not> is_rooted (output_of x)
                      then (Inl (AdbRootError (StrOf x)), st1)
                      else (Inr (is_rooted (output_of x)),
                            st1\<lparr>connected_as_root_tbl :=
                                  (connected_as_root_tbl st1)(device self \<mapsto> enable)\<rparr>))
                   else (Inl x, st1)
               | (Inr output, st1) \<Rightarrow>
                   if contains ''cannot run as root in production builds'' output
                   then (Inl (AdbRootError (Text output)), st1)
                   else (Inr (is_rooted output),
                         st1\<lparr>connected_as_root_tbl :=
                               (connected_as_root_tbl st1)(device self \<mapsto> enable)\<rparr>)))"

text \<open>\<open>AdbConnection.adb_root\<close>: the same, its result dropped.\<close>

definition adb_root ::
  "env \<Rightarrow> connection \<Rightarrow> bool \<Rightarrow> adb_state \<Rightarrow> error option \<times> adb_state" where
  "adb_root e self enable st =
     (case priv_adb_root e self enable st of
        (Inl x, st') \<Rightarrow> (Some x, st')
      | (Inr was_rooted, st') \<Rightarrow> (None, st'))"

section \<open>Closing a connection\<close>

text \<open>
  \<open>AdbConnection._close\<close>: the counter is decremented and, at zero or below, its key
  deleted, in one locked block; then, if that happened, the root state is restored for a
  connection that asked for root, and \<open>adb_disconnect\<close> is called. An exception of the
  restore leaves \<open>_close\<close> before the disconnect.
\<close>

definition priv_close :: "env \<Rightarrow> connection \<Rightarrow> adb_state \<Rightarrow> error option \<times> adb_state" where
  "priv_close e self st =
     (let n = dd_get (nr_active st) (device self) - 1;
          disconnect = (n \<le> 0);
          st1 = st\<lparr>nr_active :=
                     (if disconnect then (nr_active st)(device self := None)
                      else (nr_active st)(device self \<mapsto> n))\<rparr>
      in if disconnect then
           (case (if adb_as_root self then adb_root e self (restore_to_adb_root self) st1
                  else (None, st1)) of
              (Some x, st2) \<Rightarrow> (Some x, st2)
            | (None, st2) \<Rightarrow>
                adb_disconnect e (device self) (adb_server self) (adb_port self) st2)
         else (None, st1))"

section \<open>Constructing a connection\<close>

text \<open>\<open>str(x)\<close> of an optional text or number, as an f-string renders it.\<close>

definition str_opt_string :: "string option \<Rightarrow> string" where
  "str_opt_string x = (case x of None \<Rightarrow> ''None'' | Some t \<Rightarrow> t)"

definition str_opt_int :: "int option \<Rightarrow> string" where
  "str_opt_int x = (case x of None \<Rightarrow> ''None'' | Some i \<Rightarrow> str_int i)"

definition could_not_connect ::
  "string \<Rightarrow> string option \<Rightarrow> int option \<Rightarrow> string option \<Rightarrow> message" where
  "could_not_connect dev srv port output =
     Text (''Could not connect to '' @ (if dev = [] then ''a device'' else dev) @ '' at ''
           @ str_opt_string srv @ '':'' @ str_opt_int port
           @ (case output of
                None \<Rightarrow> []
              | Some out \<Rightarrow> if out = [] then [] else ''; got: '' @ out))"

text \<open>
  The loop of \<open>adb_connect\<close>: \<open>remaining\<close> iterations are left and \<open>k\<close> have been done.
  For a device name with a dot each iteration calls \<open>adb_disconnect\<close> first and then
  runs the connect command; the ping decides whether the loop ends.
\<close>

fun adb_connect_loop ::
  "env \<Rightarrow> string \<Rightarrow> string option \<Rightarrow> int option \<Rightarrow> nat \<Rightarrow> nat \<Rightarrow> string option \<Rightarrow> adb_state
     \<Rightarrow> error option \<times> adb_state" where
  "adb_connect_loop e dev srv port 0 k output st =
     (Some (HostError (could_not_connect dev srv port output)), st)"
| "adb_connect_loop e dev srv port (Suc remaining) k output st =
     (case (if dev \<noteq> [] \<and> CHR ''.'' \<in> set dev then
              (case adb_disconnect e dev srv port st of
                 (Some x, st1) \<Rightarrow> (Inl x, st1)
               | (None, st1) \<Rightarrow>
                   (case connect_result e k of
                      Inl x \<Rightarrow> (Inl x, record_event (AdbConnectCommand dev) st1)
                    | Inr out \<Rightarrow> (Inr (Some out), record_event (AdbConnectCommand dev) st1)))
            else (Inr output, st)) of
        (Inl x, st2) \<Rightarrow> (Some x, st2)
      | (Inr output', st2) \<Rightarrow>
          if ping_result e k then (None, record_event (Ping dev) st2)
          else adb_connect_loop e dev srv port remaining (Suc k) output'
                 (record_event (Sleep 10) (record_event (Ping dev) st2)))"

text \<open>\<open>adb_connect\<close>: \<open>while tries <= attempts\<close> from \<open>tries = 0\<close> runs \<open>attempts + 1\<close> times.\<close>

definition adb_connect ::
  "env \<Rightarrow> string \<Rightarrow> string option \<Rightarrow> int option \<Rightarrow> int \<Rightarrow> adb_state
     \<Rightarrow> error option \<times> adb_state" where
  "adb_connect e dev srv port attempts st =
     adb_connect_loop e dev srv port (nat (attempts + 1)) 0 None st"

definition MAX_ATTEMPTS :: int where
  "MAX_ATTEMPTS = 5"

definition setup_ls_command :: string where
  "setup_ls_command =
     ''shell '' @ [CHR 0x27] @ ''(ls -1); echo '' @ [CHR 0x22, LF] @ ''$?'' @ [CHR 0x22, CHR 0x27]"

text \<open>
  \<open>AdbConnection._setup_ls\<close>: the last line of the output is the exit code of
  \<open>ls -1\<close>; no line at all raises IndexError, a line that is no number ValueError.
\<close>

definition priv_setup_ls ::
  "env \<Rightarrow> connection \<Rightarrow> adb_state \<Rightarrow> (error + connection) \<times> adb_state" where
  "priv_setup_ls e self st =
     (case adb_command e (Some (device self)) setup_ls_command st of
        (Inl x, st1) \<Rightarrow>
          if isinstance_CalledProcessError x
          then (Inl (HostError (Text (''Failed to set up ls command on Android device. Output:''
                                      @ [LF] @ output_of x))), st1)
          else (Inl x, st1)
      | (Inr output, st1) \<Rightarrow>
          (case splitlines output of
             [] \<Rightarrow> (Inl IndexError, st1)
           | l # ls \<Rightarrow>
               (case py_int (py_strip (last (l # ls))) of
                  None \<Rightarrow> (Inl ValueError, st1)
                | Some retval \<Rightarrow>
                    (Inr (self\<lparr>ls_command := (if retval = 0 then ''ls -1'' else ''ls'')\<rparr>), st1))))"

text \<open>
  \<open>AdbConnection._setup_su\<close>: nothing to do as root; otherwise \<open>ls\<close> is run as root in
  the new style, and a stable error, a transient error or a time-out selects the old
  style.
\<close>

definition priv_setup_su ::
  "env \<Rightarrow> connection \<Rightarrow> adb_state \<Rightarrow> (error + connection) \<times> adb_state" where
  "priv_setup_su e self st =
     (case connected_as_root e self st of
        (Inl x, st1) \<Rightarrow> (Inl x, st1)
      | (Inr rooted, st1) \<Rightarrow>
          if rooted then (Inr self, st1)
          else
            (case execute e self ''ls'' True True False st1 of
               (Inr out, st2) \<Rightarrow> (Inr self, st2)
             | (Inl x, st2) \<Rightarrow>
                 if isinstance_TargetStableError x \<or> isinstance_TargetTransientError x
                    \<or> x = TimeoutError
                 then (Inr (self\<lparr>su_cmd := ''echo {} | su''\<rparr>), st2)
                 else (Inl x, st2)))"

text \<open>
  \<open>AdbConnection.__init__\<close>. A missing device is discovered with the caller's
  \<open>timeout\<close> argument as it was given. The counter of the device is incremented in a
  locked block; everything after it can still raise. The result is \<open>None\<close> only when
  the discovery loop has not returned on the polls of the environment.
\<close>

definition init ::
  "env \<Rightarrow> string option \<Rightarrow> real option \<Rightarrow> string option \<Rightarrow> int option \<Rightarrow> bool \<Rightarrow> int
     \<Rightarrow> adb_state \<Rightarrow> ((error + connection) \<times> adb_state) option" where
  "init e dev_arg timeout srv port as_root connection_attempts st =
     (case (case dev_arg of
              Some d \<Rightarrow> Some (Inr d)
            | None \<Rightarrow> adb_get_device timeout (start_server_result e) (devices_polls e)) of
        None \<Rightarrow> None
      | Some (Inl x) \<Rightarrow> Some (Inl x, st)
      | Some (Inr d) \<Rightarrow>
          (let self0 = \<lparr>device = d, adb_server = srv, adb_port = port, adb_as_root = as_root,
                        restore_to_adb_root = False, ls_command = ''ls'',
                        su_cmd = ''su -c {}''\<rparr>;
               st1 = st\<lparr>nr_active := (nr_active st)(d \<mapsto> dd_get (nr_active st) d + 1)\<rparr>
           in case (if as_root then
                      (case priv_adb_root e self0 True st1 of
                         (Inl x, s) \<Rightarrow>
                           if isinstance_AdbRootError x then (Inr self0, s) else (Inl x, s)
                       | (Inr was_rooted, s) \<Rightarrow>
                           (Inr (self0\<lparr>restore_to_adb_root := was_rooted\<rparr>), s))
                    else (Inr self0, st1)) of
                (Inl x, s) \<Rightarrow> Some (Inl x, s)
              | (Inr self1, s) \<Rightarrow>
                  (case adb_connect e d srv port connection_attempts s of
                     (Some x, s2) \<Rightarrow> Some (Inl x, s2)
                   | (None, s2) \<Rightarrow>
                       (case priv_setup_ls e self1 s2 of
                          (Inl x, s3) \<Rightarrow> Some (Inl x, s3)
                        | (Inr self2, s3) \<Rightarrow> Some (priv_setup_su e self2 s3)))))"

section \<open>Background launch: discovering the process id\<close>

text \<open>
  \<open>max(map(int, pids.split()))\<close>: ValueError (here \<open>None\<close>) for a token that is no number
  and for no token at all.
\<close>

fun parse_ints :: "string list \<Rightarrow> int list option" where
  "parse_ints [] = Some []"
| "parse_ints (t # ts) =
     (case py_int t of
        None \<Rightarrow> None
      | Some i \<Rightarrow> (case parse_ints ts of None \<Rightarrow> None | Some is \<Rightarrow> Some (i # is)))"

definition max_pid :: "string \<Rightarrow> int option" where
  "max_pid pids =
     (case parse_ints (py_split pids) of
        None \<Rightarrow> None
      | Some [] \<Rightarrow> None
      | Some (i # is) \<Rightarrow> Some (fold max is i))"

definition could_not_detect_pid :: "string \<Rightarrow> message" where
  "could_not_detect_pid orig_command =
     Text (''Could not detect PID of background command: '' @ orig_command)"

text \<open>
  Lines 704 to 722 of \<open>adb_background_shell\<close>, the loop \<open>for _ in range(5)\<close> with
  \<open>remaining\<close> iterations left and \<open>k\<close> done; \<open>envs k\<close> is the environment of attempt
  \<open>k\<close>. A stable error of \<open>conn.execute\<close> is raised again at once; any other exception
  of the attempt is followed by a sleep of 10 ms and the next attempt.
\<close>

fun discover_pid ::
  "(nat \<Rightarrow> env) \<Rightarrow> connection \<Rightarrow> string \<Rightarrow> string \<Rightarrow> bool \<Rightarrow> nat \<Rightarrow> nat \<Rightarrow> adb_state
     \<Rightarrow> (error + int) \<times> adb_state" where
  "discover_pid envs conn find_pid orig_command as_root 0 k st =
     (Inl (TargetTransientError (could_not_detect_pid orig_command)), st)"
| "discover_pid envs conn find_pid orig_command as_root (Suc remaining) k st =
     (case execute (envs k) conn find_pid True as_root False st of
        (Inl x, st1) \<Rightarrow>
          if isinstance_TargetStableError x then (Inl x, st1)
          else discover_pid envs conn find_pid orig_command as_root remaining (Suc k)
                 (record_event (Sleep (1 / 100)) st1)
      | (Inr pids, st1) \<Rightarrow>
          (case max_pid pids of
             None \<Rightarrow>
               discover_pid envs conn find_pid orig_command as_root remaining (Suc k)
                 (record_event (Sleep (1 / 100)) st1)
           | Some pid \<Rightarrow> (Inr pid, st1)))"

text \<open>
  The discovery of \<open>adb_background_shell\<close>: \<open>find_pid\<close> is the listing command built on
  line 702 and \<open>orig_command\<close> the command the caller passed.
\<close>

definition adb_background_shell_pid ::
  "(nat \<Rightarrow> env) \<Rightarrow> connection \<Rightarrow> string \<Rightarrow> string \<Rightarrow> bool \<Rightarrow> adb_state
     \<Rightarrow> (error + int) \<times> adb_state" where
  "adb_background_shell_pid envs conn find_pid orig_command as_root st =
     discover_pid envs conn find_pid orig_command as_root 5 0 st"

section \<open>Notions used in the statements\<close>

text \<open>
  A poll on which the discovery loop goes on waiting for a time-out \<open>t\<close>: the listing
  was read, has fewer than three lines, and the time-out has not elapsed.
\<close>

definition still_waiting :: "real \<Rightarrow> (error + string) \<times> real \<Rightarrow> bool" where
  "still_waiting t poll =
     (case fst poll of
        Inl x \<Rightarrow> False
      | Inr text \<Rightarrow> length (splitlines text) < 3 \<and> \<not> t < snd poll)"

text \<open>The state of a process that has opened no connection yet.\<close>

definition initial_state :: adb_state where
  "initial_state = \<lparr>nr_active = Map.empty, connected_as_root_tbl = Map.empty, trace = []\<rparr>"

text \<open>
  The error \<open>y\<close> is the failure of the root-status probe that \<open>execute\<close> runs before
  its own command: root was asked for, the status of the device was not cached, and
  \<open>self.execute('id')\<close>, a call without the hint, raised \<open>y\<close>.
\<close>

definition probe_failed :: "env \<Rightarrow> connection \<Rightarrow> bool \<Rightarrow> adb_state \<Rightarrow> error \<Rightarrow> bool" where
  "probe_failed e self as_root st y =
     (as_root \<and> connected_as_root_tbl st (device self) = None
      \<and> execute_result e self ''id'' True False False = Inl y)"

text \<open>
  An outcome of one discovery attempt after which the loop goes on: \<open>conn.execute\<close>
  raised an error that is not stable, or the listing it returned has no token or a token
  that is no number.
\<close>

definition retries :: "error + string \<Rightarrow> bool" where
  "retries res =
     (case res of
        Inl x \<Rightarrow> \<not> isinstance_TargetStableError x
      | Inr pids \<Rightarrow> max_pid pids = None)"

text \<open>The number of 10 ms sleeps recorded in a trace.\<close>

definition backoffs :: "adb_state \<Rightarrow> nat" where
  "backoffs st = count_list (trace st) (Sleep (1 / 100))"


text \<open>
  Runs of the connection life cycle. An operation constructs a connection or closes one,
  each in an environment of its own. \<open>run\<close> follows the shared state and the list of open
  connections; it is defined for the runs in which every construction returns a
  connection and every close is that of an open connection.
\<close>

datatype op =
    Construct env "string option" "real option" "string option" "int option" bool int
  | Close env connection

fun run ::
  "op list \<Rightarrow> adb_state \<times> connection list \<Rightarrow> (adb_state \<times> connection list) option" where
  "run [] s = Some s"
| "run (Construct e dev_arg timeout srv port as_root attempts # ops) (st, opens) =
     (case init e dev_arg timeout srv port as_root attempts st of
        Some (Inr conn, st') \<Rightarrow> run ops (st', conn # opens)
      | _ \<Rightarrow> None)"
| "run (Close e self # ops) (st, opens) =
     (if self \<in> set opens then run ops (snd (priv_close e self st), remove1 self opens)
      else None)"

section \<open>Concrete inputs\<close>

text \<open>Listings of \<open>adb devices\<close> with no, one and two devices.\<close>

definition example_listing_none :: string where
  "example_listing_none = ''List of devices attached'' @ [LF, LF]"

definition example_listing_one :: string where
  "example_listing_one =
     ''List of devices attached'' @ [LF] @ ''SER'' @ [CHR 0x09] @ ''device'' @ [LF, LF]"

definition example_listing_two :: string where
  "example_listing_two =
     ''List of devices attached'' @ [LF] @ ''A'' @ [CHR 0x09] @ ''device'' @ [LF]
       @ ''B'' @ [CHR 0x09] @ ''device'' @ [LF, LF]"

text \<open>
  An environment in which every action succeeds with empty output, and one in which no
  device is attached.
\<close>

definition example_env :: env where
  "example_env =
     \<lparr>adb_path = ''adb'',
      check_output_result = (\<lambda>parts. Inr ([], [])),
      adb_command_result = (\<lambda>dev command. Inr []),
      disconnect_retval = (\<lambda>dev. 0),
      connect_result = (\<lambda>k. Inr []),
      ping_result = (\<lambda>k. True),
      start_server_result = Inr [],
      devices_polls = []\<rparr>"

definition example_env_no_device :: env where
  "example_env_no_device = example_env\<lparr>devices_polls := [(Inr example_listing_none, 0)]\<rparr>"

text \<open>A connection to the device \<open>D\<close>, and a state in which two connections to it are open.\<close>

definition example_connection :: connection where
  "example_connection =
     \<lparr>device = ''D'', adb_server = None, adb_port = None, adb_as_root = False,
      restore_to_adb_root = False, ls_command = ''ls'', su_cmd = ''su -c {}''\<rparr>"

definition example_state_two :: adb_state where
  "example_state_two = initial_state\<lparr>nr_active := [''D'' \<mapsto> 2]\<rparr>"

text \<open>An environment whose transport captures \<open>raw\<close> and \<open>err\<close> for every command.\<close>

definition env_with_capture :: "string \<Rightarrow> string \<Rightarrow> env" where
  "env_with_capture raw err = example_env\<lparr>check_output_result := (\<lambda>parts. Inr (raw, err))\<rparr>"

text \<open>
  Raw captures: of a command that prints nothing and exits with 3, and with 1; of a command
  that exits with 0 after an activity error; of a run cut before the exit code.
\<close>

definition example_capture_exit3 :: string where
  "example_capture_exit3 = [LF] @ ''3'' @ [LF]"

definition example_capture_exit1 :: string where
  "example_capture_exit1 = [LF] @ ''1'' @ [LF]"

definition example_capture_activity :: string where
  "example_capture_activity = ''Error: Activity class not found'' @ [LF] @ ''0'' @ [LF]"

definition example_capture_no_code :: string where
  "example_capture_no_code = ''killed'' @ [LF] @ ''x'' @ [LF]"

text \<open>
  Environments for the root toggle: the command exits with an error whose output says
  that the daemon already runs as root; it exits with an error that says the device is
  offline; it exits normally with the refusal of a production build.
\<close>

definition example_already_root :: error where
  "example_already_root =
     CalledProcessError 1 [''adb -s D unroot''] ''adbd is already running as root'' []"

definition example_offline :: error where
  "example_offline = CalledProcessError 1 [''adb -s D root''] ''error: device offline'' []"

definition example_env_already_root :: env where
  "example_env_already_root =
     example_env\<lparr>adb_command_result := (\<lambda>dev command. Inl example_already_root)\<rparr>"

definition example_env_offline :: env where
  "example_env_offline =
     example_env\<lparr>adb_command_result := (\<lambda>dev command. Inl example_offline)\<rparr>"

definition example_env_production :: env where
  "example_env_production =
     example_env\<lparr>adb_command_result :=
       (\<lambda>dev command. Inr ''adbd cannot run as root in production builds'')\<rparr>"

definition example_env_timeout :: env where
  "example_env_timeout =
     example_env\<lparr>adb_command_result := (\<lambda>dev command. Inl TimeoutError)\<rparr>"

text \<open>
  Raw captures of the listing command: no process matched; two processes matched.
  Environments of the attempts: the listing is empty twice and then shows the two
  processes; it is empty every time; the listing command exits with 1 every time.
\<close>

definition example_capture_no_pid :: string where
  "example_capture_no_pid = [LF] @ ''0'' @ [LF]"

definition example_capture_pids :: string where
  "example_capture_pids = ''123'' @ [LF] @ ''456'' @ [LF] @ ''0'' @ [LF]"

definition example_envs_third :: "nat \<Rightarrow> env" where
  "example_envs_third k =
     (if k < 2 then env_with_capture example_capture_no_pid []
      else env_with_capture example_capture_pids [])"

definition example_envs_never :: "nat \<Rightarrow> env" where
  "example_envs_never k = env_with_capture example_capture_no_pid []"

definition example_envs_exit1 :: "nat \<Rightarrow> env" where
  "example_envs_exit1 k = env_with_capture example_capture_exit1 []"

text \<open>
  An environment in which a device is ready: every \<open>adb\<close> command prints \<open>0\<close> and every
  shell command prints the id of the shell user and exits with 0. The connection that
  a construction with root asked for returns in it, and the state it leaves.
\<close>

definition example_env_ready :: env where
  "example_env_ready =
     example_env\<lparr>adb_command_result := (\<lambda>dev command. Inr ''0''),
                 check_output_result :=
                   (\<lambda>parts. Inr (''uid=2000(shell)'' @ [LF] @ ''0'' @ [LF], []))\<rparr>"

definition example_root_connection :: connection where
  "example_root_connection =
     \<lparr>device = ''D'', adb_server = None, adb_port = None, adb_as_root = True,
      restore_to_adb_root = False, ls_command = ''ls -1'', su_cmd = ''su -c {}''\<rparr>"




text \<open>
  A device reached over the network, listed by \<open>adb devices\<close>: the environment in which
  it is ready, the connection that a construction with root returns for it, and the
  state that construction leaves.
\<close>

definition example_listing_network :: string where
  "example_listing_network =
     ''List of devices attached'' @ [LF] @ ''10.0.0.1:5555'' @ [CHR 0x09] @ ''device''
     @ [LF, LF]"

definition example_env_network :: env where
  "example_env_network =
     example_env_ready
       \<lparr>adb_command_result :=
          (\<lambda>dev command. if command = ''devices'' then Inr example_listing_network
                          else Inr ''0'')\<rparr>"

definition example_network_connection :: connection where
  "example_network_connection = example_root_connection\<lparr>device := ''10.0.0.1:5555''\<rparr>"

definition example_state_network :: adb_state where
  "example_state_network =
     \<lparr>nr_active = [''10.0.0.1:5555'' \<mapsto> 1],
      connected_as_root_tbl = [''10.0.0.1:5555'' \<mapsto> True],
      trace = [AdbCommand (Some ''10.0.0.1:5555'') ''root'', AdbCommand None ''devices'',
               AdbConnectCommand ''10.0.0.1:5555'', Ping ''10.0.0.1:5555'',
               AdbCommand (Some ''10.0.0.1:5555'') setup_ls_command]\<rparr>"

text \<open>
  An environment in which no device is attached at the first poll of the discovery and
  one device, \<open>SER\<close>, at the second.
\<close>

definition example_env_device_appears :: env where
  "example_env_device_appears =
     example_env\<lparr>devices_polls := [(Inr example_listing_none, 0), (Inr example_listing_one, 1)]\<rparr>"

section \<open>Properties\<close>

subsection \<open>Device discovery\<close>

lemma adb_get_device_loop_waiting:
  "list_all (still_waiting t) pre \<Longrightarrow>
   adb_get_device_loop (Some t) (pre @ rest) = adb_get_device_loop (Some t) rest"
proof (induction pre)
  case Nil
  then show ?case by simp
next
  case (Cons p pre)
  obtain listing elapsed where p: "p = (listing, elapsed)" by (cases p)
  from Cons.prems obtain ln where
    l: "listing = Inr ln" and n: "length (splitlines ln) < 3" and w: "\<not> t < elapsed"
    by (auto simp: still_waiting_def p split: sum.splits)
  from Cons.prems have "list_all (still_waiting t) pre" by simp
  with Cons.IH n w show ?case by (simp add: p l Let_def)
qed

lemma splitlines_example_none:
  "splitlines example_listing_none = [''List of devices attached'', []]"
  by code_simp

lemma splitlines_example_one:
  "splitlines example_listing_one
     = [''List of devices attached'', ''SER'' @ [CHR 0x09] @ ''device'', []]"
  by code_simp

lemma splitlines_example_two:
  "splitlines example_listing_two
     = [''List of devices attached'', ''A'' @ [CHR 0x09] @ ''device'',
        ''B'' @ [CHR 0x09] @ ''device'', []]"
  by code_simp

lemma str_int_2: "str_int 2 = ''2''"
  by code_simp

text \<open>
  Discovery with no device named. A listing of more than three lines (more than one
  device) fails at once with a HostError whose message starts with the number of devices,
  the number of lines less two, whatever the time-out. With a numeric time-out \<open>t\<close>,
  after any number of polls that show fewer than three lines within the time-out, a
  listing of exactly three lines returns the name on its second line, and a listing of
  fewer than three lines read after the time-out has elapsed raises the HostError
  for no device.
\<close>

theorem adb_get_device_discovery:
  "(3 < length (splitlines text) \<longrightarrow>
      adb_get_device tmo (Inr started) ((Inr text, elapsed) # polls)
        = Some (Inl (HostError (Text (str_int (int (length (splitlines text)) - 2)
             @ '' Android devices found; either explicitly specify ''
             @ ''the device you want, or make sure only one is connected.'')))))
   \<and> (list_all (still_waiting t) pre \<and> length (splitlines text) = 3 \<longrightarrow>
      adb_get_device (Some t) (Inr started) (pre @ (Inr text, elapsed) # polls)
        = Some (Inr (first_tab_field (splitlines text ! 1))))
   \<and> (list_all (still_waiting t) pre \<and> length (splitlines text) < 3 \<and> t < elapsed \<longrightarrow>
      adb_get_device (Some t) (Inr started) (pre @ (Inr text, elapsed) # polls)
        = Some (Inl (HostError (Text ''No device is connected and available''))))"
  by (simp add: adb_get_device_def adb_get_device_loop_waiting Let_def devices_found_message_def)

theorem adb_get_device_discovery_witness:
  "adb_get_device None (Inr []) [(Inr example_listing_two, 0)]
     = Some (Inl (HostError (Text (''2 Android devices found; either explicitly specify ''
             @ ''the device you want, or make sure only one is connected.''))))
   \<and> adb_get_device (Some 2) (Inr [])
        ([(Inr example_listing_none, 0), (Inr example_listing_none, 1)]
           @ [(Inr example_listing_one, 2)])
     = Some (Inr ''SER'')
   \<and> adb_get_device (Some 2) (Inr [])
        ([(Inr example_listing_none, 0), (Inr example_listing_none, 1)]
           @ [(Inr example_listing_none, 3)])
     = Some (Inl (HostError (Text ''No device is connected and available'')))"
  using adb_get_device_discovery [of example_listing_two None "[]" 0 "[]" 2 "[]"]
        adb_get_device_discovery [of example_listing_one None "[]" 2 "[]" 2
              "[(Inr example_listing_none, 0), (Inr example_listing_none, 1)]"]
        adb_get_device_discovery [of example_listing_none None "[]" 3 "[]" 2
              "[(Inr example_listing_none, 0), (Inr example_listing_none, 1)]"]
  by (simp add: splitlines_example_none splitlines_example_one splitlines_example_two
        still_waiting_def first_tab_field_def str_int_2)

text \<open>
  C9. Discovery at the default time-out, \<open>None\<close>, which the constructor passes when it
  is given neither a device nor a time-out. The first poll lists no device and the second
  would list the single device \<open>SER\<close>: the comparison \<open>timeout < time.time() - start\<close> of
  the first poll raises TypeError, from \<open>adb_get_device\<close> and from the constructor, which
  leaves the shared state untouched. The device is not waited for and the HostError for
  no device, which the docstring of \<open>adb_get_device\<close> announces, is not raised. Under a
  numeric time-out the same polls return \<open>SER\<close>.
\<close>

theorem default_timeout_discovery_evaluation:
  "adb_get_device None (Inr []) [(Inr example_listing_none, 0), (Inr example_listing_one, 1)]
     = Some (Inl TypeError)
   \<and> init example_env_device_appears None None None None False MAX_ATTEMPTS initial_state
       = Some (Inl TypeError, initial_state)
   \<and> adb_get_device (Some 2) (Inr [])
        [(Inr example_listing_none, 0), (Inr example_listing_one, 1)]
     = Some (Inr ''SER'')"
  by (simp add: init_def adb_get_device_def example_env_device_appears_def example_env_def
        splitlines_example_none splitlines_example_one first_tab_field_def Let_def)

text \<open>
  C10. With the time-out left at \<open>None\<close> and a listing of fewer than three lines,
  \<open>adb_get_device\<close> raises TypeError on the first poll, and so does the constructor
  called with neither a device nor a time-out, before it touches the shared state. With
  a numeric time-out the loop ends with the HostError for no device on the first such
  listing read after the time-out has elapsed.
\<close>

theorem adb_get_device_timeout_None:
  "(length (splitlines text) < 3 \<longrightarrow>
      adb_get_device None (Inr started) ((Inr text, elapsed) # polls) = Some (Inl TypeError))
   \<and> (start_server_result e = Inr started \<and> devices_polls e = (Inr text, elapsed) # polls
        \<and> length (splitlines text) < 3 \<longrightarrow>
      init e None None srv port as_root attempts st = Some (Inl TypeError, st))
   \<and> (list_all (still_waiting t) pre \<and> length (splitlines text) < 3 \<and> t < elapsed \<longrightarrow>
      adb_get_device (Some t) (Inr started) (pre @ (Inr text, elapsed) # polls)
        = Some (Inl (HostError (Text ''No device is connected and available''))))"
  by (simp add: init_def adb_get_device_def adb_get_device_loop_waiting Let_def)

theorem adb_get_device_timeout_None_witness:
  "adb_get_device None (Inr []) [(Inr example_listing_none, 0)] = Some (Inl TypeError)
   \<and> init example_env_no_device None None None None False MAX_ATTEMPTS initial_state
       = Some (Inl TypeError, initial_state)
   \<and> adb_get_device (Some 10) (Inr [])
        ([(Inr example_listing_none, 0), (Inr example_listing_none, 5)]
           @ [(Inr example_listing_none, 11)])
     = Some (Inl (HostError (Text ''No device is connected and available'')))"
  using adb_get_device_timeout_None
          [of example_listing_none "[]" 0 "[]" example_env_no_device None None False
              MAX_ATTEMPTS initial_state 10 "[]"]
        adb_get_device_timeout_None
          [of example_listing_none "[]" 11 "[]" example_env_no_device None None False
              MAX_ATTEMPTS initial_state 10
              "[(Inr example_listing_none, 0), (Inr example_listing_none, 5)]"]
  by (simp add: splitlines_example_none still_waiting_def example_env_no_device_def
        example_env_def)

subsection \<open>Evaluating the text primitives\<close>

lemmas py_eval =
  py_int_def py_strip_def py_isspace_def int_unsigned_def ascii_digit_def digit_char_def
  py_isdigit_def int_max_str_digits_def dec_value_def

lemmas parse_eval =
  parse_raw_output_def normalise_newlines_def replace_cr_def numeral_2_eq_2

lemma sentinel_is_number:
  "py_isdigit (py_strip ''969696'') \<and> py_int (py_strip ''969696'') = Some 969696"
  by (simp add: py_eval)

lemma parse_raw_output_empty: "parse_raw_output [] = Inr ([], ''969696'')"
  by (simp add: parse_raw_output_def)

lemma parse_exit3: "parse_raw_output example_capture_exit3 = Inr ([], ''3'')"
  by (simp add: example_capture_exit3_def parse_eval)

lemma parse_exit1: "parse_raw_output example_capture_exit1 = Inr ([], ''1'')"
  by (simp add: example_capture_exit1_def parse_eval)

lemma parse_activity:
  "parse_raw_output example_capture_activity = Inr (''Error: Activity class not found'', ''0'')"
  by (simp add: example_capture_activity_def parse_eval)

lemma parse_no_code: "parse_raw_output example_capture_no_code = Inr (''killed'', ''x'')"
  by (simp add: example_capture_no_code_def parse_eval)

lemma findall_activity:
  "am_start_error_findall ''Error: Activity class not found''
     = [''Error: Activity class not found'']"
  by simp

lemma findall_killed: "am_start_error_findall ''killed'' = []"
  by simp

subsection \<open>The exit code check of \<open>adb_shell\<close>\<close>

lemma adb_shell_capture:
  assumes "co (get_adb_parts adb (shell_command c r su) dev srv port) = Inr (raw, err)"
  shows "adb_shell co adb dev c chk r srv port su =
     (case parse_raw_output raw of
        Inl x \<Rightarrow> Inl x
      | Inr (out, exit_code) \<Rightarrow>
          (case (if chk then check_exit (shell_command c r su) raw out exit_code err
                 else None) of
             Some x \<Rightarrow> Inl x
           | None \<Rightarrow> Inr (join_nonempty out err)))"
  using assms by (simp add: adb_shell_def Let_def)

lemma check_exit_not_digit:
  "\<not> py_isdigit (py_strip code) \<Longrightarrow>
   check_exit cmd raw out code err =
     Some (case am_start_error_findall out of
             [] \<Rightarrow> TargetTransientError (returned_early raw err)
           | m # ms \<Rightarrow> TargetStableError (could_not_start_activity m))"
  by (simp add: check_exit_def Let_def split: list.splits)

lemma check_exit_number:
  "py_isdigit (py_strip code) \<Longrightarrow> py_int (py_strip code) = Some n \<Longrightarrow>
   check_exit cmd raw out code err =
     (if n \<noteq> 0 then Some (CalledProcessError n cmd out err)
      else (case am_start_error_findall out of
              [] \<Rightarrow> None
            | m # ms \<Rightarrow> Some (TargetStableError (could_not_start_activity m))))"
  by (simp add: check_exit_def Let_def)

text \<open>
  C4, as the code has it. An empty capture gives the exit-code text \<open>969696\<close>, which
  is a number: with the exit code checked, \<open>adb_shell\<close> raises the process-exit error
  carrying 969696. An exit-code text that is not all digits never raises a process-exit
  error: it raises the transient error, unless the output matches the activity pattern,
  which raises the stable error.
\<close>

theorem undetermined_exit_code:
  "parse_raw_output [] = Inr ([], ''969696'')
   \<and> (co (get_adb_parts adb (shell_command c r su) dev srv port) = Inr ([], err) \<longrightarrow>
        adb_shell co adb dev c True r srv port su
          = Inl (CalledProcessError 969696 (shell_command c r su) [] err))
   \<and> (co (get_adb_parts adb (shell_command c r su) dev srv port) = Inr (raw, err)
        \<and> parse_raw_output raw = Inr (out, code) \<and> \<not> py_isdigit (py_strip code) \<longrightarrow>
        adb_shell co adb dev c True r srv port su
          = Inl (case am_start_error_findall out of
                   [] \<Rightarrow> TargetTransientError (returned_early raw err)
                 | m # ms \<Rightarrow> TargetStableError (could_not_start_activity m))
        \<and> (\<forall>x. adb_shell co adb dev c True r srv port su = Inl x
                \<longrightarrow> \<not> isinstance_CalledProcessError x))"
proof (intro conjI impI)
  show "parse_raw_output [] = Inr ([], ''969696'')" by (rule parse_raw_output_empty)
next
  assume a: "co (get_adb_parts adb (shell_command c r su) dev srv port) = Inr ([], err)"
  have "check_exit (shell_command c r su) [] [] ''969696'' err
          = Some (CalledProcessError 969696 (shell_command c r su) [] err)"
    using check_exit_number [of "''969696''" 969696 "shell_command c r su" "[]" "[]" err]
      sentinel_is_number by simp
  then show "adb_shell co adb dev c True r srv port su
          = Inl (CalledProcessError 969696 (shell_command c r su) [] err)"
    using adb_shell_capture [of co adb c r su dev srv port "[]" err True, OF a]
    by (simp add: parse_raw_output_empty)
next
  assume b: "co (get_adb_parts adb (shell_command c r su) dev srv port) = Inr (raw, err)
        \<and> parse_raw_output raw = Inr (out, code) \<and> \<not> py_isdigit (py_strip code)"
  then have co: "co (get_adb_parts adb (shell_command c r su) dev srv port) = Inr (raw, err)"
    and p: "parse_raw_output raw = Inr (out, code)"
    and d: "\<not> py_isdigit (py_strip code)" by simp_all
  show r: "adb_shell co adb dev c True r srv port su
          = Inl (case am_start_error_findall out of
                   [] \<Rightarrow> TargetTransientError (returned_early raw err)
                 | m # ms \<Rightarrow> TargetStableError (could_not_start_activity m))"
    using adb_shell_capture [of co adb c r su dev srv port raw err True, OF co]
      check_exit_not_digit [OF d, of "shell_command c r su" raw out err]
    by (simp add: p)
  show "\<forall>x. adb_shell co adb dev c True r srv port su = Inl x
                \<longrightarrow> \<not> isinstance_CalledProcessError x"
    unfolding r by (cases "am_start_error_findall out") simp_all
qed

theorem undetermined_exit_code_witness:
  "adb_shell (check_output_result example_env) ''adb'' (Some ''D'') ''true'' True False
      None None ''su -c {}''
     = Inl (CalledProcessError 969696 (shell_command ''true'' False ''su -c {}'') [] [])
   \<and> adb_shell (check_output_result (env_with_capture example_capture_no_code []))
        ''adb'' (Some ''D'') ''true'' True False None None ''su -c {}''
     = Inl (TargetTransientError (returned_early example_capture_no_code []))"
  using undetermined_exit_code
          [of "check_output_result example_env" "''adb''" "''true''" False "''su -c {}''"
              "Some ''D''" None None "[]"]
        undetermined_exit_code
          [of "check_output_result (env_with_capture example_capture_no_code [])" "''adb''"
              "''true''" False "''su -c {}''" "Some ''D''" None None "[]"
              example_capture_no_code "''killed''" "''x''"]
  by (simp add: example_env_def env_with_capture_def parse_no_code findall_killed py_eval)

text \<open>
  The claim C4 fails on the empty capture: the call with the exit code checked raises
  a stable process-exit error, not a transient one.
\<close>

theorem empty_capture_counterexample:
  "check_output_result example_env
      (get_adb_parts ''adb'' (shell_command ''true'' False ''su -c {}'') (Some ''D'') None None)
     = Inr ([], [])
   \<and> fst (execute example_env example_connection ''true'' True False False initial_state)
     = Inl (TargetStableCalledProcessError 969696 ''true'' [] [])
   \<and> isinstance_CalledProcessError (TargetStableCalledProcessError 969696 ''true'' [] [])
   \<and> isinstance_TargetStableError (TargetStableCalledProcessError 969696 ''true'' [] [])
   \<and> \<not> isinstance_TargetTransientError (TargetStableCalledProcessError 969696 ''true'' [] [])"
proof -
  have "adb_shell (check_output_result example_env) ''adb'' (Some ''D'') ''true'' True False
          None None ''su -c {}''
        = Inl (CalledProcessError 969696 (shell_command ''true'' False ''su -c {}'') [] [])"
    using adb_shell_capture
            [of "check_output_result example_env" "''adb''" "''true''" False "''su -c {}''"
                "Some ''D''" None None "[]" "[]" True]
          check_exit_number
            [of "''969696''" 969696 "shell_command ''true'' False ''su -c {}''" "[]" "[]" "[]"]
          sentinel_is_number
    by (simp add: example_env_def parse_raw_output_empty)
  then show ?thesis
    by (simp add: execute_def execute_try_def execute_result_def example_env_def
          example_connection_def)
qed

subsection \<open>Error classes leaving \<open>execute\<close>\<close>

lemma stable_not_transient:
  "isinstance_TargetStableError x \<Longrightarrow> \<not> isinstance_TargetTransientError x"
  by (cases x) simp_all

lemma execute_result_hint:
  "((\<exists>x. execute_result e self c chk r False = Inl x)
      \<longleftrightarrow> (\<exists>y. execute_result e self c chk r True = Inl y))
   \<and> (execute_result e self c chk r False = Inl x \<and> isinstance_TargetStableError x \<longrightarrow>
        (\<exists>y. execute_result e self c chk r True = Inl y \<and> isinstance_TargetTransientError y))
   \<and> (execute_result e self c chk r False = Inl x \<and> isinstance_TargetTransientError x \<longrightarrow>
        execute_result e self c chk r True = Inl x)
   \<and> (execute_result e self c chk r True = Inl y \<longrightarrow> \<not> isinstance_TargetStableError y)"
proof (cases "adb_shell (check_output_result e) (adb_path e) (Some (device self)) c chk r
                (adb_server self) (adb_port self) (su_cmd self)")
  case (Inr out)
  then show ?thesis by (simp add: execute_result_def)
next
  case (Inl z)
  show ?thesis
  proof (cases "isinstance_CalledProcessError z")
    case True
    with Inl show ?thesis by (auto simp: execute_result_def)
  next
    case nc: False
    show ?thesis
    proof (cases "isinstance_TargetStableError z")
      case True
      with Inl nc show ?thesis
        by (auto simp: execute_result_def dest: stable_not_transient)
    next
      case False
      with Inl nc show ?thesis by (auto simp: execute_result_def)
    qed
  qed
qed

lemma connected_as_root_fst:
  "fst (connected_as_root e self st) =
     (case connected_as_root_tbl st (device self) of
        Some b \<Rightarrow> Inr b
      | None \<Rightarrow> (case execute_result e self ''id'' True False False of
                   Inl x \<Rightarrow> Inl x
                 | Inr result \<Rightarrow> Inr (contains ''uid=0('' result)))"
  by (simp add: connected_as_root_def execute_try_def split: option.splits sum.splits)

lemma execute_fst:
  "fst (execute e self c chk as_root hint st) =
     (if as_root then
        (case fst (connected_as_root e self st) of
           Inl x \<Rightarrow> Inl x
         | Inr rooted \<Rightarrow> execute_result e self c chk (\<not> rooted) hint)
      else execute_result e self c chk False hint)"
  by (simp add: execute_def execute_try_def split: prod.splits sum.splits)

lemma probe_raises:
  "fst (connected_as_root e self st) = Inl y \<Longrightarrow>
   connected_as_root_tbl st (device self) = None
   \<and> execute_result e self ''id'' True False False = Inl y"
  by (auto simp: connected_as_root_fst split: option.splits sum.splits)

lemma execute_known_root:
  "as_root \<longrightarrow> connected_as_root_tbl st (device self) = Some rooted \<Longrightarrow>
   fst (execute e self c chk as_root hint st)
     = execute_result e self c chk (as_root \<and> \<not> rooted) hint"
  by (auto simp: execute_fst connected_as_root_fst)

text \<open>
  C7. \<open>execute\<close> with the exit code checked and the hint not set, the root status of the
  device known when root is asked for: when the exit-code text of the capture is a
  number \<open>n\<close>, a non-zero \<open>n\<close> raises the stable process-exit error that carries \<open>n\<close>,
  the caller's command, the output and the error stream; \<open>n = 0\<close> with an output that
  matches the activity pattern raises the stable error for the first match.
\<close>

theorem checked_exit_code_errors:
  assumes root: "as_root \<longrightarrow> connected_as_root_tbl st (device self) = Some rooted"
    and capture: "check_output_result e
        (get_adb_parts (adb_path e) (shell_command c (as_root \<and> \<not> rooted) (su_cmd self))
           (Some (device self)) (adb_server self) (adb_port self)) = Inr (raw, err)"
    and parse: "parse_raw_output raw = Inr (out, code)"
    and digits: "py_isdigit (py_strip code)"
    and num: "py_int (py_strip code) = Some n"
  shows "(n \<noteq> 0 \<longrightarrow>
            fst (execute e self c True as_root False st)
              = Inl (TargetStableCalledProcessError n c out err)
            \<and> isinstance_TargetStableError (TargetStableCalledProcessError n c out err)
            \<and> isinstance_CalledProcessError (TargetStableCalledProcessError n c out err)
            \<and> returncode (TargetStableCalledProcessError n c out err) = n
            \<and> output_of (TargetStableCalledProcessError n c out err) = out
            \<and> stderr_of (TargetStableCalledProcessError n c out err) = err)
       \<and> (n = 0 \<and> am_start_error_findall out = m # ms \<longrightarrow>
            fst (execute e self c True as_root False st)
              = Inl (TargetStableError (could_not_start_activity m))
            \<and> isinstance_TargetStableError (TargetStableError (could_not_start_activity m)))"
proof -
  let ?r = "as_root \<and> \<not> rooted"
  have shell: "adb_shell (check_output_result e) (adb_path e) (Some (device self)) c True ?r
                 (adb_server self) (adb_port self) (su_cmd self)
        = (case check_exit (shell_command c ?r (su_cmd self)) raw out code err of
             Some x \<Rightarrow> Inl x
           | None \<Rightarrow> Inr (join_nonempty out err))"
    using adb_shell_capture [of "check_output_result e" "adb_path e" c ?r "su_cmd self"
            "Some (device self)" "adb_server self" "adb_port self" raw err True, OF capture]
    by (simp add: parse)
  have chk: "check_exit (shell_command c ?r (su_cmd self)) raw out code err
        = (if n \<noteq> 0 then Some (CalledProcessError n (shell_command c ?r (su_cmd self)) out err)
           else (case am_start_error_findall out of
                   [] \<Rightarrow> None
                 | m # ms \<Rightarrow> Some (TargetStableError (could_not_start_activity m))))"
    by (rule check_exit_number [OF digits num])
  show ?thesis
    by (simp add: execute_known_root [OF root] execute_result_def shell chk)
qed

theorem checked_exit_code_errors_witness:
  "fst (execute (env_with_capture example_capture_exit3 []) example_connection ''exit 3''
          True False False initial_state)
     = Inl (TargetStableCalledProcessError 3 ''exit 3'' [] [])
   \<and> fst (execute (env_with_capture example_capture_activity []) example_connection
            ''am start x'' True False False initial_state)
     = Inl (TargetStableError (could_not_start_activity ''Error: Activity class not found''))"
  using checked_exit_code_errors
          [where as_root = False and st = initial_state and self = example_connection
             and e = "env_with_capture example_capture_exit3 []" and c = "''exit 3''"
             and raw = example_capture_exit3 and err = "[]" and out = "[]"
             and code = "''3''" and n = 3]
        checked_exit_code_errors
          [where as_root = False and st = initial_state and self = example_connection
             and e = "env_with_capture example_capture_activity []" and c = "''am start x''"
             and raw = example_capture_activity and err = "[]"
             and out = "''Error: Activity class not found''"
             and code = "''0''" and n = 0 and m = "''Error: Activity class not found''"
             and ms = "[]"]
  by (simp add: env_with_capture_def example_env_def parse_exit3 parse_activity
        findall_activity py_eval)

text \<open>
  C8, as the code has it. Setting the hint neither removes nor adds a failure of
  \<open>execute\<close>. A failure that is stable without the hint is, with the hint, either
  transient or the failure of the root-status probe, which \<open>execute\<close> runs outside its
  handlers. A failure that is transient without the hint is the same error with it. With
  the hint set, the only stable error that leaves \<open>execute\<close> is that of the probe.
\<close>

theorem will_succeed_reclassification:
  "((\<exists>x. fst (execute e self c chk as_root False st) = Inl x)
      \<longleftrightarrow> (\<exists>y. fst (execute e self c chk as_root True st) = Inl y))
   \<and> (fst (execute e self c chk as_root False st) = Inl x \<and> isinstance_TargetStableError x \<longrightarrow>
        (\<exists>y. fst (execute e self c chk as_root True st) = Inl y
             \<and> (isinstance_TargetTransientError y \<or> probe_failed e self as_root st y)))
   \<and> (fst (execute e self c chk as_root False st) = Inl x \<and> isinstance_TargetTransientError x \<longrightarrow>
        fst (execute e self c chk as_root True st) = Inl x)
   \<and> (fst (execute e self c chk as_root True st) = Inl y \<and> isinstance_TargetStableError y \<longrightarrow>
        probe_failed e self as_root st y)"
proof (cases as_root)
  case False
  then show ?thesis
    using execute_result_hint [of e self c chk False x y]
    by (simp add: execute_fst probe_failed_def, blast?)
next
  case ar: True
  show ?thesis
  proof (cases "fst (connected_as_root e self st)")
    case (Inl z)
    with ar probe_raises [OF Inl] show ?thesis
      by (simp add: execute_fst probe_failed_def)
  next
    case (Inr rooted)
    with ar show ?thesis
      using execute_result_hint [of e self c chk "\<not> rooted" x y]
      by (simp add: execute_fst probe_failed_def, blast?)
  qed
qed

lemma execute_result_exit1:
  "execute_result (env_with_capture example_capture_exit1 []) example_connection c True r hint
     = Inl ((if hint then TargetTransientCalledProcessError else TargetStableCalledProcessError)
              1 c [] [])"
  using adb_shell_capture
          [of "check_output_result (env_with_capture example_capture_exit1 [])"
              "adb_path (env_with_capture example_capture_exit1 [])" c r
              "su_cmd example_connection" "Some (device example_connection)"
              "adb_server example_connection" "adb_port example_connection"
              example_capture_exit1 "[]" True]
        check_exit_number
          [of "''1''" 1 "shell_command c r (su_cmd example_connection)"
              example_capture_exit1 "[]" "[]"]
  by (simp add: execute_result_def env_with_capture_def example_env_def parse_exit1 py_eval)

lemma execute_result_no_code:
  "execute_result (env_with_capture example_capture_no_code []) example_connection c True r hint
     = Inl (TargetTransientError (returned_early example_capture_no_code []))"
  using adb_shell_capture
          [of "check_output_result (env_with_capture example_capture_no_code [])"
              "adb_path (env_with_capture example_capture_no_code [])" c r
              "su_cmd example_connection" "Some (device example_connection)"
              "adb_server example_connection" "adb_port example_connection"
              example_capture_no_code "[]" True]
        check_exit_not_digit
          [of "''x''" "shell_command c r (su_cmd example_connection)"
              example_capture_no_code "''killed''" "[]"]
  by (simp add: execute_result_def env_with_capture_def example_env_def parse_no_code
        findall_killed py_eval)

theorem will_succeed_reclassification_witness:
  "fst (execute (env_with_capture example_capture_exit1 []) example_connection ''ls''
          True False False initial_state)
     = Inl (TargetStableCalledProcessError 1 ''ls'' [] [])
   \<and> fst (execute (env_with_capture example_capture_exit1 []) example_connection ''ls''
            True False True initial_state)
     = Inl (TargetTransientCalledProcessError 1 ''ls'' [] [])
   \<and> fst (execute (env_with_capture example_capture_no_code []) example_connection ''ls''
            True False False initial_state)
     = Inl (TargetTransientError (returned_early example_capture_no_code []))
   \<and> fst (execute (env_with_capture example_capture_no_code []) example_connection ''ls''
            True False True initial_state)
     = Inl (TargetTransientError (returned_early example_capture_no_code []))"
proof -
  have a: "fst (execute (env_with_capture example_capture_exit1 []) example_connection ''ls''
                  True False False initial_state)
           = Inl (TargetStableCalledProcessError 1 ''ls'' [] [])"
    by (simp add: execute_fst execute_result_exit1)
  have b: "fst (execute (env_with_capture example_capture_no_code []) example_connection ''ls''
                  True False False initial_state)
           = Inl (TargetTransientError (returned_early example_capture_no_code []))"
    by (simp add: execute_fst execute_result_no_code)
  from a
    will_succeed_reclassification
      [of "env_with_capture example_capture_exit1 []" example_connection "''ls''" True False
          initial_state "TargetStableCalledProcessError 1 ''ls'' [] []"]
  have "fst (execute (env_with_capture example_capture_exit1 []) example_connection ''ls''
               True False True initial_state)
        = Inl (TargetTransientCalledProcessError 1 ''ls'' [] [])"
    by (simp add: execute_fst execute_result_exit1)
  moreover from b
    will_succeed_reclassification
      [of "env_with_capture example_capture_no_code []" example_connection "''ls''" True False
          initial_state "TargetTransientError (returned_early example_capture_no_code [])"]
  have "fst (execute (env_with_capture example_capture_no_code []) example_connection ''ls''
               True False True initial_state)
        = Inl (TargetTransientError (returned_early example_capture_no_code []))"
    by simp
  ultimately show ?thesis using a b by simp
qed

text \<open>
  The claim C8 fails where root is asked for and the root status of the device is not
  cached: the probe \<open>id\<close> exits with 1 and its stable process-exit error leaves
  \<open>execute\<close> although the caller has set the hint.
\<close>

theorem probe_failure_counterexample:
  "connected_as_root_tbl initial_state (device example_connection) = None
   \<and> fst (execute (env_with_capture example_capture_exit1 []) example_connection ''ls''
            True True True initial_state)
     = Inl (TargetStableCalledProcessError 1 ''id'' [] [])
   \<and> isinstance_TargetStableError (TargetStableCalledProcessError 1 ''id'' [] [])
   \<and> \<not> isinstance_TargetTransientError (TargetStableCalledProcessError 1 ''id'' [] [])"
  by (simp add: execute_fst connected_as_root_fst execute_result_exit1 initial_state_def)

subsection \<open>Root toggle\<close>

lemma dd_get_gt_Some: "1 < dd_get m k \<Longrightarrow> m k = Some (dd_get m k)"
  by (cases "m k") (simp_all add: dd_get_def)

text \<open>
  C5. A root toggle called while more than one connection to the device is counted
  raises the AdbRootError for other active connections and returns the shared state as
  it was: no transport action in the trace, the cached root status and the counters
  unchanged. A root toggle that returns normally was called with a count of at most one.
\<close>

theorem root_toggle_busy:
  "(1 < dd_get (nr_active st) (device self) \<longrightarrow>
      priv_adb_root e self enable st
        = (Inl (AdbRootError
             (Text ''Can only restart adb server if no other connection is active'')), st))
   \<and> (priv_adb_root e self enable st = (Inr was_rooted, st') \<longrightarrow>
      dd_get (nr_active st) (device self) \<le> 1)"
proof (intro conjI impI)
  assume busy: "1 < dd_get (nr_active st) (device self)"
  then have "nr_active st (device self) = Some (dd_get (nr_active st) (device self))"
    by (rule dd_get_gt_Some)
  then have "(nr_active st)(device self \<mapsto> dd_get (nr_active st) (device self)) = nr_active st"
    by (rule map_upd_triv)
  with busy show "priv_adb_root e self enable st
        = (Inl (AdbRootError
             (Text ''Can only restart adb server if no other connection is active'')), st)"
    by (simp add: priv_adb_root_def Let_def)
next
  assume ok: "priv_adb_root e self enable st = (Inr was_rooted, st')"
  show "dd_get (nr_active st) (device self) \<le> 1"
  proof (rule ccontr)
    assume "\<not> dd_get (nr_active st) (device self) \<le> 1"
    with ok show False by (simp add: priv_adb_root_def Let_def)
  qed
qed

lemma root_toggle_example:
  "priv_adb_root example_env example_connection True initial_state
     = (Inr False,
        \<lparr>nr_active = [''D'' \<mapsto> 0], connected_as_root_tbl = [''D'' \<mapsto> True],
         trace = [AdbCommand (Some ''D'') ''root'']\<rparr>)"
  by (simp add: priv_adb_root_def adb_command_def record_event_def example_env_def
        example_connection_def initial_state_def dd_get_def is_rooted_def Let_def)

theorem root_toggle_busy_witness:
  "1 < dd_get (nr_active example_state_two) (device example_connection)
   \<and> priv_adb_root example_env example_connection True example_state_two
       = (Inl (AdbRootError
            (Text ''Can only restart adb server if no other connection is active'')),
          example_state_two)
   \<and> dd_get (nr_active initial_state) (device example_connection) \<le> 1"
  using root_toggle_busy [of example_state_two example_connection example_env True]
        root_toggle_busy [of initial_state example_connection example_env True False
          "\<lparr>nr_active = [''D'' \<mapsto> 0], connected_as_root_tbl = [''D'' \<mapsto> True],
            trace = [AdbCommand (Some ''D'') ''root'']\<rparr>"]
        root_toggle_example
  by (simp add: example_state_two_def example_connection_def initial_state_def dd_get_def)

text \<open>
  C6, as the code has it, for a root toggle that passes the busy check. When the toggle
  command exits with an error (a CalledProcessError): a failure output without the text
  that the daemon is already running as root raises the AdbRootError, a stable error, in
  either direction, and the cached status stays as it was; an enable whose failure
  output has that text is tolerated, returns \<open>True\<close> and caches root. An exception of
  the command that is no CalledProcessError passes through. When the command exits
  normally, the refusal of a production build in its output raises the AdbRootError and
  leaves the cached status; any other output makes the toggle succeed and sets the
  cached status of the device, shared by all connections, to the requested state.
\<close>

theorem root_toggle_outcomes:
  assumes "dd_get (nr_active st) (device self) \<le> 1"
  shows
  "(adb_command_result e (Some (device self)) (if enable then ''root'' else ''unroot'') = Inl x
      \<and> isinstance_CalledProcessError x \<and> \<not> is_rooted (output_of x) \<longrightarrow>
      fst (priv_adb_root e self enable st) = Inl (AdbRootError (StrOf x))
      \<and> isinstance_TargetStableError (AdbRootError (StrOf x))
      \<and> connected_as_root_tbl (snd (priv_adb_root e self enable st)) = connected_as_root_tbl st)
   \<and> (adb_command_result e (Some (device self)) ''root'' = Inl x
      \<and> isinstance_CalledProcessError x \<and> is_rooted (output_of x) \<longrightarrow>
      fst (priv_adb_root e self True st) = Inr True
      \<and> connected_as_root_tbl (snd (priv_adb_root e self True st))
          = (connected_as_root_tbl st)(device self \<mapsto> True))
   \<and> (adb_command_result e (Some (device self)) (if enable then ''root'' else ''unroot'') = Inl x
      \<and> \<not> isinstance_CalledProcessError x \<longrightarrow>
      fst (priv_adb_root e self enable st) = Inl x)
   \<and> (adb_command_result e (Some (device self)) (if enable then ''root'' else ''unroot'') = Inr out
      \<and> contains ''cannot run as root in production builds'' out \<longrightarrow>
      fst (priv_adb_root e self enable st) = Inl (AdbRootError (Text out))
      \<and> isinstance_TargetStableError (AdbRootError (Text out))
      \<and> connected_as_root_tbl (snd (priv_adb_root e self enable st)) = connected_as_root_tbl st)
   \<and> (adb_command_result e (Some (device self)) (if enable then ''root'' else ''unroot'') = Inr out
      \<and> \<not> contains ''cannot run as root in production builds'' out \<longrightarrow>
      fst (priv_adb_root e self enable st) = Inr (is_rooted out)
      \<and> connected_as_root_tbl (snd (priv_adb_root e self enable st))
          = (connected_as_root_tbl st)(device self \<mapsto> enable))"
  using assms
  by (simp add: priv_adb_root_def adb_command_def record_event_def Let_def)

lemma is_rooted_examples:
  "is_rooted ''adbd is already running as root''
   \<and> \<not> is_rooted ''error: device offline''
   \<and> \<not> is_rooted []
   \<and> contains ''cannot run as root in production builds''
        ''adbd cannot run as root in production builds''
   \<and> \<not> contains ''cannot run as root in production builds'' []"
  by (simp add: is_rooted_def)

theorem root_toggle_outcomes_witness:
  "dd_get (nr_active initial_state) (device example_connection) \<le> 1
   \<and> fst (priv_adb_root example_env_offline example_connection True initial_state)
       = Inl (AdbRootError (StrOf example_offline))
   \<and> fst (priv_adb_root example_env_already_root example_connection True initial_state)
       = Inr True
   \<and> fst (priv_adb_root example_env_timeout example_connection False initial_state)
       = Inl TimeoutError
   \<and> fst (priv_adb_root example_env_production example_connection True initial_state)
       = Inl (AdbRootError (Text ''adbd cannot run as root in production builds''))
   \<and> fst (priv_adb_root example_env example_connection False initial_state) = Inr False
   \<and> connected_as_root_tbl
        (snd (priv_adb_root example_env example_connection False initial_state))
       = [''D'' \<mapsto> False]"
proof -
  have c: "dd_get (nr_active initial_state) (device example_connection) \<le> 1"
    by (simp add: initial_state_def dd_get_def)
  show ?thesis
    using c
      root_toggle_outcomes [OF c, of example_env_offline True example_offline "[]"]
      root_toggle_outcomes [OF c, of example_env_already_root True example_already_root "[]"]
      root_toggle_outcomes [OF c, of example_env_timeout False TimeoutError "[]"]
      root_toggle_outcomes [OF c, of example_env_production True TimeoutError
         "''adbd cannot run as root in production builds''"]
      root_toggle_outcomes [OF c, of example_env False TimeoutError "[]"]
      is_rooted_examples
    by (simp add: example_env_offline_def example_env_already_root_def example_env_timeout_def
          example_env_production_def example_env_def example_offline_def
          example_already_root_def example_connection_def initial_state_def)
qed

text \<open>
  The claim C6 fails for a disable: the \<open>unroot\<close> command exits with an error whose
  output says that the daemon is already running as root, the opposite of the requested
  state, and the toggle returns normally and caches the status non-root.
\<close>

theorem unroot_tolerated_counterexample:
  "adb_command_result example_env_already_root (Some (device example_connection)) ''unroot''
     = Inl (CalledProcessError 1 [''adb -s D unroot''] ''adbd is already running as root'' [])
   \<and> is_rooted ''adbd is already running as root''
   \<and> fst (priv_adb_root example_env_already_root example_connection False initial_state)
       = Inr True
   \<and> connected_as_root_tbl
        (snd (priv_adb_root example_env_already_root example_connection False initial_state))
        ''D''
       = Some False"
  by (simp add: priv_adb_root_def adb_command_def record_event_def example_env_already_root_def
        example_env_def example_already_root_def example_connection_def initial_state_def
        dd_get_def is_rooted_def Let_def)

subsection \<open>Discovery of the process id\<close>

lemma execute_settled:
  "as_root \<longrightarrow> connected_as_root_tbl st (device self) = Some rooted \<Longrightarrow>
   execute e self c chk as_root hint st
     = (execute_result e self c chk (as_root \<and> \<not> rooted) hint,
        record_event (AdbShell (device self) c (as_root \<and> \<not> rooted)) st)"
  by (auto simp: execute_def connected_as_root_def execute_try_def)

lemma record_event_tbl [simp]:
  "connected_as_root_tbl (record_event ev st) = connected_as_root_tbl st"
  by (simp add: record_event_def)

lemma backoffs_shell [simp]: "backoffs (record_event (AdbShell d c r) st) = backoffs st"
  by (simp add: backoffs_def record_event_def)

lemma backoffs_sleep [simp]: "backoffs (record_event (Sleep (1 / 100)) st) = Suc (backoffs st)"
  by (simp add: backoffs_def record_event_def)

lemma discover_pid_retry:
  assumes "as_root \<longrightarrow> connected_as_root_tbl st (device conn) = Some rooted"
    and "retries (execute_result (envs k) conn f True (as_root \<and> \<not> rooted) False)"
  shows "discover_pid envs conn f orig as_root (Suc n) k st
     = discover_pid envs conn f orig as_root n (Suc k)
         (record_event (Sleep (1 / 100))
            (record_event (AdbShell (device conn) f (as_root \<and> \<not> rooted)) st))"
  using assms(2)
  by (auto simp: execute_settled [OF assms(1)] retries_def split: sum.splits)

lemma discover_pid_prefix:
  assumes "as_root \<longrightarrow> connected_as_root_tbl st (device conn) = Some rooted"
    and "\<forall>j<K. retries (execute_result (envs (k + j)) conn f True (as_root \<and> \<not> rooted) False)"
  shows "\<exists>st'. (as_root \<longrightarrow> connected_as_root_tbl st' (device conn) = Some rooted)
           \<and> backoffs st' = backoffs st + K
           \<and> discover_pid envs conn f orig as_root (K + n) k st
               = discover_pid envs conn f orig as_root n (k + K) st'"
  using assms
proof (induction K arbitrary: k st)
  case 0
  then show ?case by auto
next
  case (Suc K)
  let ?st1 = "record_event (Sleep (1 / 100))
                (record_event (AdbShell (device conn) f (as_root \<and> \<not> rooted)) st)"
  from Suc.prems(2) have first:
    "retries (execute_result (envs k) conn f True (as_root \<and> \<not> rooted) False)"
    by (metis add.right_neutral zero_less_Suc)
  from Suc.prems(2) have rest:
    "\<forall>j<K. retries (execute_result (envs (Suc k + j)) conn f True (as_root \<and> \<not> rooted) False)"
    by (metis Suc_less_eq add_Suc_shift)
  have root1: "as_root \<longrightarrow> connected_as_root_tbl ?st1 (device conn) = Some rooted"
    using Suc.prems(1) by simp
  from Suc.IH [OF root1 rest] obtain st' where
    st': "as_root \<longrightarrow> connected_as_root_tbl st' (device conn) = Some rooted"
      "backoffs st' = backoffs ?st1 + K"
      "discover_pid envs conn f orig as_root (K + n) (Suc k) ?st1
         = discover_pid envs conn f orig as_root n (Suc k + K) st'"
    by blast
  have "discover_pid envs conn f orig as_root (Suc K + n) k st
          = discover_pid envs conn f orig as_root (K + n) (Suc k) ?st1"
    using discover_pid_retry
            [where envs = envs and k = k and n = "K + n" and orig = orig,
             OF Suc.prems(1) first]
    by simp
  with st' show ?case by (intro exI [of _ st']) simp
qed

lemma no_token_retries: "py_split pids = [] \<Longrightarrow> retries (Inr pids)"
  by (simp add: retries_def max_pid_def)

text \<open>
  C3, as the code has it, with the root flag settled (the root status of the device is
  cached when root is asked for). When each of the first \<open>K\<close> attempts ends in an error
  of \<open>execute\<close> that is not stable, or in a listing without a usable token, each is
  followed by one sleep of 10 ms and, for \<open>K < 5\<close>, by attempt \<open>K + 1\<close>: if that one
  returns a listing, the launch returns its highest process id; if it raises a stable
  error, that error is raised again at once, as it is. Five such attempts raise the
  transient error that names the original command. A listing with no token at all is
  such an attempt.
\<close>

theorem pid_discovery:
  assumes root: "as_root \<longrightarrow> connected_as_root_tbl st (device conn) = Some rooted"
    and fails: "\<forall>j<K. retries (execute_result (envs j) conn f True (as_root \<and> \<not> rooted) False)"
  shows
   "(K < 5 \<and> execute_result (envs K) conn f True (as_root \<and> \<not> rooted) False = Inr pids
       \<and> max_pid pids = Some pid \<longrightarrow>
       fst (adb_background_shell_pid envs conn f orig as_root st) = Inr pid
       \<and> backoffs (snd (adb_background_shell_pid envs conn f orig as_root st))
           = backoffs st + K)
    \<and> (K < 5 \<and> execute_result (envs K) conn f True (as_root \<and> \<not> rooted) False = Inl x
       \<and> isinstance_TargetStableError x \<longrightarrow>
       fst (adb_background_shell_pid envs conn f orig as_root st) = Inl x
       \<and> backoffs (snd (adb_background_shell_pid envs conn f orig as_root st))
           = backoffs st + K)
    \<and> (K = 5 \<longrightarrow>
       fst (adb_background_shell_pid envs conn f orig as_root st)
         = Inl (TargetTransientError (could_not_detect_pid orig))
       \<and> isinstance_TargetTransientError (TargetTransientError (could_not_detect_pid orig))
       \<and> backoffs (snd (adb_background_shell_pid envs conn f orig as_root st))
           = backoffs st + 5)
    \<and> (py_split pids' = [] \<longrightarrow> retries (Inr pids'))"
proof -
  let ?r = "as_root \<and> \<not> rooted"
  have tail: "\<exists>st'. (as_root \<longrightarrow> connected_as_root_tbl st' (device conn) = Some rooted)
           \<and> backoffs st' = backoffs st + K
           \<and> discover_pid envs conn f orig as_root (K + n) 0 st
               = discover_pid envs conn f orig as_root n K st'" for n
    using discover_pid_prefix
            [where envs = envs and k = 0 and K = K and orig = orig and n = n, OF root]
          fails
    by simp
  have a: "fst (adb_background_shell_pid envs conn f orig as_root st) = Inr pid
       \<and> backoffs (snd (adb_background_shell_pid envs conn f orig as_root st))
           = backoffs st + K"
    if "K < 5" and ok: "execute_result (envs K) conn f True ?r False = Inr pids"
      and pid: "max_pid pids = Some pid"
  proof -
    from tail [of "Suc (4 - K)"] obtain st' where
      st': "as_root \<longrightarrow> connected_as_root_tbl st' (device conn) = Some rooted"
        "backoffs st' = backoffs st + K"
        "discover_pid envs conn f orig as_root (K + Suc (4 - K)) 0 st
           = discover_pid envs conn f orig as_root (Suc (4 - K)) K st'"
      by blast
    have "K + Suc (4 - K) = 5" using \<open>K < 5\<close> by simp
    with st'(3) have eq: "discover_pid envs conn f orig as_root 5 0 st
           = discover_pid envs conn f orig as_root (Suc (4 - K)) K st'"
      by simp
    show ?thesis
      unfolding adb_background_shell_pid_def eq
      by (simp add: execute_settled [OF st'(1)] ok pid st'(2))
  qed
  have b: "fst (adb_background_shell_pid envs conn f orig as_root st) = Inl x
       \<and> backoffs (snd (adb_background_shell_pid envs conn f orig as_root st))
           = backoffs st + K"
    if "K < 5" and bad: "execute_result (envs K) conn f True ?r False = Inl x"
      and stable: "isinstance_TargetStableError x"
  proof -
    from tail [of "Suc (4 - K)"] obtain st' where
      st': "as_root \<longrightarrow> connected_as_root_tbl st' (device conn) = Some rooted"
        "backoffs st' = backoffs st + K"
        "discover_pid envs conn f orig as_root (K + Suc (4 - K)) 0 st
           = discover_pid envs conn f orig as_root (Suc (4 - K)) K st'"
      by blast
    have "K + Suc (4 - K) = 5" using \<open>K < 5\<close> by simp
    with st'(3) have eq: "discover_pid envs conn f orig as_root 5 0 st
           = discover_pid envs conn f orig as_root (Suc (4 - K)) K st'"
      by simp
    show ?thesis
      unfolding adb_background_shell_pid_def eq
      by (simp add: execute_settled [OF st'(1)] bad stable st'(2))
  qed
  have c: "fst (adb_background_shell_pid envs conn f orig as_root st)
         = Inl (TargetTransientError (could_not_detect_pid orig))
       \<and> backoffs (snd (adb_background_shell_pid envs conn f orig as_root st))
           = backoffs st + 5"
    if "K = 5"
  proof -
    from tail [of 0] obtain st' where
      st': "backoffs st' = backoffs st + K"
        "discover_pid envs conn f orig as_root (K + 0) 0 st
           = discover_pid envs conn f orig as_root 0 K st'"
      by blast
    with that show ?thesis
      by (simp add: adb_background_shell_pid_def)
  qed
  from a b c show ?thesis by (simp add: no_token_retries)
qed

lemma parse_no_pid: "parse_raw_output example_capture_no_pid = Inr ([], ''0'')"
  by (simp add: example_capture_no_pid_def parse_eval)

lemma parse_pids:
  "parse_raw_output example_capture_pids = Inr (''123'' @ [LF] @ ''456'', ''0'')"
  by (simp add: example_capture_pids_def parse_eval)

lemma execute_result_no_pid:
  "execute_result (env_with_capture example_capture_no_pid []) example_connection c True r hint
     = Inr []"
  using adb_shell_capture
          [of "check_output_result (env_with_capture example_capture_no_pid [])"
              "adb_path (env_with_capture example_capture_no_pid [])" c r
              "su_cmd example_connection" "Some (device example_connection)"
              "adb_server example_connection" "adb_port example_connection"
              example_capture_no_pid "[]" True]
        check_exit_number
          [of "''0''" 0 "shell_command c r (su_cmd example_connection)"
              example_capture_no_pid "[]" "[]"]
  by (simp add: execute_result_def env_with_capture_def example_env_def parse_no_pid py_eval
        join_nonempty_def)

lemma findall_pids: "am_start_error_findall (''123'' @ [LF] @ ''456'') = []"
  by simp

lemma execute_result_pids:
  "execute_result (env_with_capture example_capture_pids []) example_connection c True r hint
     = Inr (''123'' @ [LF] @ ''456'')"
  using adb_shell_capture
          [of "check_output_result (env_with_capture example_capture_pids [])"
              "adb_path (env_with_capture example_capture_pids [])" c r
              "su_cmd example_connection" "Some (device example_connection)"
              "adb_server example_connection" "adb_port example_connection"
              example_capture_pids "[]" True]
        check_exit_number
          [of "''0''" 0 "shell_command c r (su_cmd example_connection)"
              example_capture_pids "''123'' @ [LF] @ ''456''" "[]"]
        findall_pids
  by (simp add: execute_result_def env_with_capture_def example_env_def parse_pids py_eval
        join_nonempty_def)

lemma max_pid_examples:
  "max_pid [] = None \<and> max_pid (''123'' @ [LF] @ ''456'') = Some 456"
  by (simp add: max_pid_def py_split_def py_eval)

theorem pid_discovery_witness:
  "fst (adb_background_shell_pid example_envs_third example_connection ''ps'' ''sleep 2''
          False initial_state) = Inr 456
   \<and> backoffs (snd (adb_background_shell_pid example_envs_third example_connection ''ps''
                      ''sleep 2'' False initial_state)) = 2
   \<and> fst (adb_background_shell_pid example_envs_never example_connection ''ps'' ''sleep 2''
            False initial_state)
       = Inl (TargetTransientError (could_not_detect_pid ''sleep 2''))
   \<and> backoffs (snd (adb_background_shell_pid example_envs_never example_connection ''ps''
                      ''sleep 2'' False initial_state)) = 5"
proof -
  have r3: "\<forall>j<2. retries (execute_result (example_envs_third j) example_connection ''ps''
                              True (False \<and> \<not> False) False)"
    using max_pid_examples
    by (simp add: example_envs_third_def execute_result_no_pid retries_def)
  have r5: "\<forall>j<5. retries (execute_result (example_envs_never j) example_connection ''ps''
                              True (False \<and> \<not> False) False)"
    using max_pid_examples
    by (simp add: example_envs_never_def execute_result_no_pid retries_def)
  have b0: "backoffs initial_state = 0"
    by (simp add: backoffs_def initial_state_def)
  show ?thesis
    using pid_discovery
            [where as_root = False and rooted = False and st = initial_state
               and conn = example_connection and envs = example_envs_third and f = "''ps''"
               and K = 2 and pids = "''123'' @ [LF] @ ''456''" and pid = 456
               and orig = "''sleep 2''", OF _ r3]
          pid_discovery
            [where as_root = False and rooted = False and st = initial_state
               and conn = example_connection and envs = example_envs_never and f = "''ps''"
               and K = 5 and orig = "''sleep 2''", OF _ r5]
          max_pid_examples b0
    by (simp add: example_envs_third_def execute_result_pids)
qed

text \<open>
  The claim C3 fails where the listing command exits with 1: \<open>execute\<close> raises a
  stable process-exit error, and the discovery raises it again on the first attempt,
  without a sleep or a second attempt.
\<close>

theorem stable_discovery_counterexample:
  "fst (adb_background_shell_pid example_envs_exit1 example_connection ''ps'' ''sleep 2''
          False initial_state)
     = Inl (TargetStableCalledProcessError 1 ''ps'' [] [])
   \<and> isinstance_TargetStableError (TargetStableCalledProcessError 1 ''ps'' [] [])
   \<and> \<not> isinstance_TargetTransientError (TargetStableCalledProcessError 1 ''ps'' [] [])
   \<and> backoffs (snd (adb_background_shell_pid example_envs_exit1 example_connection ''ps''
                      ''sleep 2'' False initial_state)) = 0"
  by (simp add: adb_background_shell_pid_def eval_nat_numeral execute_def execute_try_def
        example_envs_exit1_def execute_result_exit1 backoffs_def record_event_def
        initial_state_def)

subsection \<open>The round trip of the exit code\<close>











lemma digit_value_char_of: "(k::nat) < 10 \<Longrightarrow> (of_char (char_of (48 + k) :: char) :: nat) - 48 = k"
  by simp


















subsection \<open>The reference count and the disconnect\<close>

text \<open>What each step of a construction and of a close does to the counters.\<close>

lemma record_event_nr_active [simp]: "nr_active (record_event ev st) = nr_active st"
  by (simp add: record_event_def)

lemma record_event_trace [simp]: "trace (record_event ev st) = trace st @ [ev]"
  by (simp add: record_event_def)





lemma device_in_never: "\<not> device_in s devices"
  by (auto simp: device_in_def list_ex_iff elim: str_eq_AdbDevice.elims)

lemma adb_disconnect_steps:
  "adb_disconnect e dev srv port st
     = (if CHR '':'' \<in> set dev
        then (case adb_command_result e None ''devices'' of
                Inl x \<Rightarrow> Some x
              | Inr out \<Rightarrow> None,
              record_event (AdbCommand None ''devices'') st)
        else (None, st))"
  by (auto simp: adb_disconnect_def adb_list_devices_def adb_command_def device_in_never
        split: sum.splits)

lemma adb_disconnect_nr_active [simp]:
  "nr_active (snd (adb_disconnect e dev srv port st)) = nr_active st"
  by (simp add: adb_disconnect_steps)


lemma execute_try_nr_active [simp]:
  "nr_active (snd (execute_try e self c chk r hint st)) = nr_active st"
  by (simp add: execute_try_def)

lemma connected_as_root_nr_active [simp]:
  "nr_active (snd (connected_as_root e self st)) = nr_active st"
  by (simp add: connected_as_root_def case_prod_beta split: option.splits sum.splits)

lemma execute_nr_active [simp]:
  "nr_active (snd (execute e self c chk r hint st)) = nr_active st"
  by (simp add: execute_def case_prod_beta split: sum.splits)

lemma priv_setup_ls_nr_active [simp]:
  "nr_active (snd (priv_setup_ls e self st)) = nr_active st"
  by (simp add: priv_setup_ls_def adb_command_def split: sum.splits list.splits option.splits)













lemma setup_ls_command_not_devices:
  "setup_ls_command \<noteq> ''devices'' \<and> ''root'' \<noteq> ''devices'' \<and> ''unroot'' \<noteq> ''devices''"
  by (simp add: setup_ls_command_def)


lemma adb_list_devices_network:
  "fst (adb_list_devices example_env_network initial_state)
     = Inr [AdbDevice ''10.0.0.1:5555'' ''device'']"
  by code_simp




text \<open>
  The device \<open>10.0.0.1:5555\<close> is listed by \<open>adb devices\<close> and its only connection is
  closed: after the root restore the devices are listed, the comparison of the name with
  the \<open>AdbDevice\<close> objects is false, and the close returns without a disconnect command.
\<close>

lemma close_example_network:
  "fst (priv_close example_env_network example_network_connection example_state_network)
     = None
   \<and> trace (snd (priv_close example_env_network example_network_connection
                    example_state_network))
       = trace example_state_network
         @ [AdbCommand (Some ''10.0.0.1:5555'') ''unroot'', AdbCommand None ''devices'']"
  by (simp add: priv_close_def adb_root_def priv_adb_root_def adb_command_def record_event_def
        adb_disconnect_steps example_env_network_def example_env_ready_def example_env_def
        example_network_connection_def example_root_connection_def
        example_state_network_def dd_get_def is_rooted_def Let_def
        setup_ls_command_not_devices)




end
